theory Spec2Isabelle
  imports Main "HOL-Library.Char_ord" "HOL-Library.List_Lexorder"
begin

section \<open>The end-of-block orchestrator of the exchange ledger (app.go)\<close>

text \<open>
  The development embeds \<^verbatim>\<open>EndBlocker\<close>, \<^verbatim>\<open>getAllChangedAccountBalances\<close> and
  \<^verbatim>\<open>getAccountBalances\<close> of the application object. Go maps are partial functions;
  where the code ranges over a map, the model takes the keys (or entries) as a list in the
  order in which that run of the range statement visits them, because the language leaves
  the order open. Pointers whose targets are shared are kept in an explicit store.
  \<^verbatim>\<open>Logger.Debug\<close> and \<^verbatim>\<open>Logger.Info\<close> lines change no state and are left out;
  \<^verbatim>\<open>Logger.Error\<close> lines are recorded.
\<close>

subsection \<open>Formatting with \<^verbatim>\<open>%d\<close> and \<^verbatim>\<open>%s\<close>\<close>

definition digit :: "nat \<Rightarrow> char" where
  "digit n = ''0123456789'' ! n"

function Sprintf_nat :: "nat \<Rightarrow> string" where
  "Sprintf_nat n = (if n < 10 then [digit n] else Sprintf_nat (n div 10) @ [digit (n mod 10)])"
  by pat_completeness auto
termination
  by (relation "measure (\<lambda>n. n)") auto

declare Sprintf_nat.simps [simp del]

definition Sprintf_d :: "int \<Rightarrow> string" where
  "Sprintf_d i = (if i < 0 then CHR ''-'' # Sprintf_nat (nat (- i)) else Sprintf_nat (nat i))"

subsection \<open>Coins, accounts and the published balances\<close>

text \<open>
  \<^verbatim>\<open>sdk.Coin\<close>: the amount is kept as the 64-bit value that \<^verbatim>\<open>Amount.Int64()\<close> yields
  (\<^verbatim>\<open>sdk.Int\<close> belongs to a library outside the repository).
\<close>

record Coin =
  Denom :: string
  Amount :: int

record AssetBalance =
  Asset :: string
  Free :: int
  Frozen :: int
  Locked :: int

text \<open>\<^verbatim>\<open>pub.Account{bech32Str, assets}\<close>: the address and a slice of AssetBalance values.\<close>

record Account =
  acc_address :: string
  acc_assets :: "AssetBalance list"

text \<open>
  The capability set the type assertion \<^verbatim>\<open>.(types.NamedAccount)\<close> asks for: the three coin
  lists. An account the mapper returns is either of that kind or of another one; a missing
  account is \<open>None\<close>.
\<close>

record NamedAccount =
  GetCoins :: "Coin list"
  GetFrozenCoins :: "Coin list"
  GetLockedCoins :: "Coin list"

datatype auth_Account = IsNamedAccount NamedAccount | OtherAccount

text \<open>
  The state of the three loops over one account. \<open>heap\<close> holds the AssetBalance objects
  whose address the code takes (\<^verbatim>\<open>&newAB\<close>, \<^verbatim>\<open>&pub.AssetBalance{...}\<close>); a pointer is an
  index into it. \<open>assetsMap\<close> maps a denomination to such a pointer. \<open>assets\<close> is the
  slice of AssetBalance values: \<^verbatim>\<open>append(assets, newAB)\<close> stores a copy of \<^verbatim>\<open>newAB\<close>.
\<close>

record balances =
  heap :: "AssetBalance list"
  assetsMap :: "string \<rightharpoonup> nat"
  assets :: "AssetBalance list"

definition balances0 :: balances where
  "balances0 = \<lparr>heap = [], assetsMap = Map.empty, assets = []\<rparr>"

definition freeStep :: "balances \<Rightarrow> Coin \<Rightarrow> balances" where
  "freeStep s freeCoin =
     (case assetsMap s (Denom freeCoin) of
        Some p \<Rightarrow> s\<lparr>heap := (heap s)[p := (heap s ! p)\<lparr>Free := Amount freeCoin\<rparr>]\<rparr>
      | None \<Rightarrow>
          (let newAB = \<lparr>Asset = Denom freeCoin, Free = Amount freeCoin, Frozen = 0, Locked = 0\<rparr>
           in s\<lparr>heap := heap s @ [newAB],
                assetsMap := (assetsMap s)(Denom freeCoin \<mapsto> length (heap s)),
                assets := assets s @ [newAB]\<rparr>))"

definition frozenStep :: "balances \<Rightarrow> Coin \<Rightarrow> balances" where
  "frozenStep s frozenCoin =
     (case assetsMap s (Denom frozenCoin) of
        Some p \<Rightarrow> s\<lparr>heap := (heap s)[p := (heap s ! p)\<lparr>Frozen := Amount frozenCoin\<rparr>]\<rparr>
      | None \<Rightarrow>
          s\<lparr>heap := heap s @
                 [\<lparr>Asset = Denom frozenCoin, Free = 0, Frozen = Amount frozenCoin, Locked = 0\<rparr>],
            assetsMap := (assetsMap s)(Denom frozenCoin \<mapsto> length (heap s))\<rparr>)"

definition lockedStep :: "balances \<Rightarrow> Coin \<Rightarrow> balances" where
  "lockedStep s lockedCoin =
     (case assetsMap s (Denom lockedCoin) of
        Some p \<Rightarrow> s\<lparr>heap := (heap s)[p := (heap s ! p)\<lparr>Locked := Amount lockedCoin\<rparr>]\<rparr>
      | None \<Rightarrow>
          s\<lparr>heap := heap s @
                 [\<lparr>Asset = Denom lockedCoin, Free = 0, Frozen = 0, Locked = Amount lockedCoin\<rparr>],
            assetsMap := (assetsMap s)(Denom lockedCoin \<mapsto> length (heap s))\<rparr>)"

text \<open>The body of the successful type assertion, lines 485 to 515: the Account stored in \<open>res\<close>.\<close>

definition accountToPublish :: "string \<Rightarrow> NamedAccount \<Rightarrow> Account" where
  "accountToPublish bech32Str acc =
     (let s1 = foldl freeStep balances0 (GetCoins acc);
          s2 = foldl frozenStep s1 (GetFrozenCoins acc);
          s3 = foldl lockedStep s2 (GetLockedCoins acc)
      in \<lparr>acc_address = bech32Str, acc_assets = assets s3\<rparr>)"

text \<open>
  \<^verbatim>\<open>getAccountBalances(res, accs)\<close>. \<open>GetAccount\<close> stands for decoding the bech32 string
  (the decoding error is dropped by the code) followed by the mapper's lookup in the deliver
  state. \<open>accs\<close> is the key list of the Go map in visiting order. The second component
  collects the \<^verbatim>\<open>Logger.Error\<close> messages.
\<close>

definition accountError :: "string \<Rightarrow> string" where
  "accountError bech32Str = ''failed to get account '' @ bech32Str @ '' from AccountMapper''"

text \<open>The body of the range loop, lines 482 to 519, for one key.\<close>

definition accountStep ::
  "(string \<Rightarrow> auth_Account option) \<Rightarrow> (string \<rightharpoonup> Account) \<times> string list \<Rightarrow> string
     \<Rightarrow> (string \<rightharpoonup> Account) \<times> string list" where
  "accountStep GetAccount s bech32Str =
     (case fst s bech32Str of
        Some _ \<Rightarrow> s
      | None \<Rightarrow>
          (case GetAccount bech32Str of
             Some (IsNamedAccount acc) \<Rightarrow>
               ((fst s)(bech32Str \<mapsto> accountToPublish bech32Str acc), snd s)
           | _ \<Rightarrow> (fst s, snd s @ [accountError bech32Str])))"

definition getAccountBalances ::
  "(string \<Rightarrow> auth_Account option) \<Rightarrow> (string \<rightharpoonup> Account) \<times> string list \<Rightarrow> string list
     \<Rightarrow> (string \<rightharpoonup> Account) \<times> string list" where
  "getAccountBalances GetAccount s accs = foldl (accountStep GetAccount) s accs"

definition getAllChangedAccountBalances ::
  "(string \<Rightarrow> auth_Account option) \<Rightarrow> string list \<Rightarrow> string list
     \<Rightarrow> (string \<rightharpoonup> Account) \<times> string list" where
  "getAllChangedAccountBalances GetAccount txRelatedAccounts tradeRelatedAccounts =
     getAccountBalances GetAccount
       (getAccountBalances GetAccount (Map.empty, []) txRelatedAccounts)
       tradeRelatedAccounts"

subsection \<open>Orders, transfers and trades\<close>

text \<open>
  Modelled from the spec: \<^verbatim>\<open>order.OrderChange\<close> is declared outside the files at hand. By
  the data model of the spec it has an id, a kind, and the fee asset and fee that the code
  writes on lines 271 to 275.
\<close>

datatype ChangeType = NEW | CANCEL | FILLED_PARTIAL | FILLED_FULL | EXPIRED | IOC_NO_FILL

record OrderChange =
  oc_Id :: string
  Tpe :: ChangeType
  FeeAsset :: string
  Fee :: int

text \<open>
  Modelled from the spec: \<^verbatim>\<open>types.Fee\<close> is declared outside the files at hand. The code
  reads its \<^verbatim>\<open>Tokens\<close>, by the spec a list of denominations with amounts.
\<close>

record types_Fee =
  Tokens :: "Coin list"

text \<open>
  Modelled from the spec: \<^verbatim>\<open>order.Transfer\<close> is declared outside the files at hand. By the
  data model of the spec it has the two order ids, the fee and three flags, which are what
  its methods \<^verbatim>\<open>IsBuyer()\<close>, \<^verbatim>\<open>IsExpired()\<close> and \<^verbatim>\<open>FeeFree()\<close> return.
\<close>

record Transfer =
  Bid :: string
  Sid :: string
  IsBuyer :: bool
  IsExpired :: bool
  FeeFree :: bool
  tran_Fee :: types_Fee

text \<open>
  Modelled from the spec: \<^verbatim>\<open>matcheng.Trade\<close> is declared outside the files at hand. These
  are the fields that lines 317 to 324 read.
\<close>

record matcheng_Trade =
  BId :: string
  SId :: string
  LastPx :: int
  LastQty :: int
  m_BuyCumQty :: int

text \<open>
  Modelled from the spec: \<^verbatim>\<open>pub.Trade\<close> is declared outside the files at hand. These are
  the fields of the trade for publication in the spec, which are the ones that lines 286 to
  324 write.
\<close>

record pub_Trade =
  Id_t :: string
  Symbol :: string
  Price :: int
  Qty :: int
  Sid_t :: string
  Bid_t :: string
  Sfee :: int
  SfeeAsset :: string
  Bfee :: int
  BfeeAsset :: string
  BuyCumQty :: int

text \<open>\<^verbatim>\<open>new(pub.Trade)\<close>: every field has its zero value.\<close>

definition new_pub_Trade :: pub_Trade where
  "new_pub_Trade =
     \<lparr>Id_t = [], Symbol = [], Price = 0, Qty = 0, Sid_t = [], Bid_t = [],
      Sfee = 0, SfeeAsset = [], Bfee = 0, BfeeAsset = [], BuyCumQty = 0\<rparr>"

text \<open>
  \<^verbatim>\<open>OrderChangesMap\<close> maps an order id to a pointer to its OrderChange (the code assigns to a
  field of \<^verbatim>\<open>OrderChangesMap[id]\<close>, which Go allows through a pointer only). \<open>None\<close> is a
  missing key, for which the index expression yields the nil pointer. Each key has an object
  of its own. \<^verbatim>\<open>groupedTrades\<close> has two levels, as in the code; every \<^verbatim>\<open>*pub.Trade\<close> in it
  comes from its own \<^verbatim>\<open>new(pub.Trade)\<close> and is reachable under one pair of keys only.
\<close>

type_synonym orderChangesMap = "string \<rightharpoonup> OrderChange"
type_synonym groupedTrades = "string \<rightharpoonup> (string \<rightharpoonup> pub_Trade)"

datatype panic = IndexOutOfRange | NilPointerDereference

subsection \<open>The fee-collection channel\<close>

text \<open>
  \<^verbatim>\<open>transCh\<close> is a buffered channel known to the callback and to \<^verbatim>\<open>EndBlocker\<close> alone, and
  \<^verbatim>\<open>EndBlocker\<close> receives from it only after \<^verbatim>\<open>MatchAndAllocateAll\<close> has returned. So a send
  completes when the buffer has room, and waits for ever when it is full: \<open>None\<close>.
  \<open>n\<close> is the capacity, \<^verbatim>\<open>pub.FeeCollectionChannelSize\<close>.
\<close>

definition feeCollectorForTrades :: "nat \<Rightarrow> Transfer list \<Rightarrow> Transfer \<Rightarrow> Transfer list option" where
  "feeCollectorForTrades n transCh tran =
     (if length transCh < n then Some (transCh @ [tran]) else None)"

text \<open>The callback applied to the Transfers that the matching emits, one after the other.\<close>

fun collect :: "nat \<Rightarrow> Transfer list \<Rightarrow> Transfer list \<Rightarrow> Transfer list option" where
  "collect n transCh [] = Some transCh"
| "collect n transCh (tran # rest) =
     (case feeCollectorForTrades n transCh tran of
        None \<Rightarrow> None
      | Some transCh' \<Rightarrow> collect n transCh' rest)"

subsection \<open>Draining the channel, lines 265 to 310\<close>

text \<open>
  One assignment \<^verbatim>\<open>OrderChangesMap[k].FeeAsset = tran.Fee.Tokens[0].Denom\<close>: Go evaluates the
  right-hand side first (the index may be out of range) and then stores through the pointer
  (which may be nil).
\<close>

definition setFeeAsset :: "orderChangesMap \<Rightarrow> string \<Rightarrow> Transfer \<Rightarrow> panic + orderChangesMap" where
  "setFeeAsset m k tran =
     (case Tokens (tran_Fee tran) of
        [] \<Rightarrow> Inl IndexOutOfRange
      | c # _ \<Rightarrow>
          (case m k of
             None \<Rightarrow> Inl NilPointerDereference
           | Some oc \<Rightarrow> Inr (m(k \<mapsto> oc\<lparr>FeeAsset := Denom c\<rparr>))))"

definition setFee :: "orderChangesMap \<Rightarrow> string \<Rightarrow> Transfer \<Rightarrow> panic + orderChangesMap" where
  "setFee m k tran =
     (case Tokens (tran_Fee tran) of
        [] \<Rightarrow> Inl IndexOutOfRange
      | c # _ \<Rightarrow>
          (case m k of
             None \<Rightarrow> Inl NilPointerDereference
           | Some oc \<Rightarrow> Inr (m(k \<mapsto> oc\<lparr>Fee := Amount c\<rparr>))))"

definition expiredStep :: "orderChangesMap \<Rightarrow> Transfer \<Rightarrow> panic + orderChangesMap" where
  "expiredStep m tran =
     (if \<not> FeeFree tran then
        (if IsBuyer tran then
           (case setFeeAsset m (Bid tran) tran of
              Inl p \<Rightarrow> Inl p
            | Inr m' \<Rightarrow> setFee m' (Bid tran) tran)
         else
           (case setFeeAsset m (Sid tran) tran of
              Inl p \<Rightarrow> Inl p
            | Inr m' \<Rightarrow> setFee m' (Sid tran) tran))
      else Inr m)"

text \<open>Lines 280 to 297: afterwards the pointer \<^verbatim>\<open>t\<close> is the entry under (Bid, Sid).\<close>

definition groupStep :: "groupedTrades \<Rightarrow> Transfer \<Rightarrow> groupedTrades" where
  "groupStep g tran =
     (case g (Bid tran) of
        Some groupedByBid \<Rightarrow>
          (case groupedByBid (Sid tran) of
             Some tradeToPublish \<Rightarrow> g
           | None \<Rightarrow>
               g(Bid tran \<mapsto>
                   groupedByBid(Sid tran \<mapsto> new_pub_Trade\<lparr>Sid_t := Sid tran, Bid_t := Bid tran\<rparr>)))
      | None \<Rightarrow>
          g(Bid tran \<mapsto>
              [Sid tran \<mapsto> new_pub_Trade\<lparr>Sid_t := Sid tran, Bid_t := Bid tran\<rparr>]))"

text \<open>A write through the pointer stored under (bid, sid).\<close>

definition updTrade ::
  "groupedTrades \<Rightarrow> string \<Rightarrow> string \<Rightarrow> (pub_Trade \<Rightarrow> pub_Trade) \<Rightarrow> groupedTrades" where
  "updTrade g bid sid f =
     (case g bid of
        None \<Rightarrow> g
      | Some groupedByBid \<Rightarrow>
          (case groupedByBid sid of
             None \<Rightarrow> g
           | Some t \<Rightarrow> g(bid \<mapsto> groupedByBid(sid \<mapsto> f t))))"

text \<open>Lines 300 to 308.\<close>

definition fillFee :: "groupedTrades \<Rightarrow> Transfer \<Rightarrow> panic + groupedTrades" where
  "fillFee g tran =
     (if \<not> FeeFree tran then
        (case Tokens (tran_Fee tran) of
           [] \<Rightarrow> Inl IndexOutOfRange
         | c # _ \<Rightarrow>
             (if IsBuyer tran then
                Inr (updTrade g (Bid tran) (Sid tran) (\<lambda>t. t\<lparr>Bfee := Amount c, BfeeAsset := Denom c\<rparr>))
              else
                Inr (updTrade g (Bid tran) (Sid tran) (\<lambda>t. t\<lparr>Sfee := Amount c, SfeeAsset := Denom c\<rparr>))))
      else Inr g)"

definition drainStep ::
  "orderChangesMap \<times> groupedTrades \<Rightarrow> Transfer \<Rightarrow> panic + orderChangesMap \<times> groupedTrades" where
  "drainStep s tran =
     (if IsExpired tran then
        (case expiredStep (fst s) tran of
           Inl p \<Rightarrow> Inl p
         | Inr m' \<Rightarrow> Inr (m', snd s))
      else
        (case fillFee (groupStep (snd s) tran) tran of
           Inl p \<Rightarrow> Inl p
         | Inr g' \<Rightarrow> Inr (fst s, g')))"

text \<open>\<^verbatim>\<open>for tran := range transCh\<close> on the closed channel: its content in the order sent.\<close>

fun drain ::
  "orderChangesMap \<times> groupedTrades \<Rightarrow> Transfer list \<Rightarrow> panic + orderChangesMap \<times> groupedTrades" where
  "drain s [] = Inr s"
| "drain s (tran # transCh) =
     (case drainStep s tran of
        Inl p \<Rightarrow> Inl p
      | Inr s' \<Rightarrow> drain s' transCh)"

subsection \<open>Joining the trades of the block with the grouped fees, lines 312 to 334\<close>

record joined =
  grouped :: groupedTrades
  toPublish :: "pub_Trade list"
  tradeIdx :: int
  errors :: "string list"

definition tradeId :: "int \<Rightarrow> int \<Rightarrow> string" where
  "tradeId height idx = Sprintf_d height @ ''-'' @ Sprintf_d idx"

definition sidError :: "matcheng_Trade \<Rightarrow> string" where
  "sidError trade =
     ''failed to look up sid from trade: '' @ BId trade @ ''-'' @ SId trade @ '' from groupedTrades''"

definition bidError :: "matcheng_Trade \<Rightarrow> string" where
  "bidError trade =
     ''failed to look up bid from trade: '' @ BId trade @ ''-'' @ SId trade @ '' from groupedTrades''"

definition joinTrade :: "int \<Rightarrow> string \<Rightarrow> joined \<Rightarrow> matcheng_Trade \<Rightarrow> joined" where
  "joinTrade height symbol s trade =
     (case grouped s (BId trade) of
        Some groupedByBid \<Rightarrow>
          (case groupedByBid (SId trade) of
             Some t \<Rightarrow>
               (let t' = t\<lparr>Id_t := tradeId height (tradeIdx s), Symbol := symbol,
                           Price := LastPx trade, Qty := LastQty trade,
                           BuyCumQty := m_BuyCumQty trade\<rparr>
                in s\<lparr>grouped := (grouped s)(BId trade \<mapsto> groupedByBid(SId trade \<mapsto> t')),
                     toPublish := toPublish s @ [t'],
                     tradeIdx := tradeIdx s + 1\<rparr>)
           | None \<Rightarrow> s\<lparr>errors := errors s @ [sidError trade]\<rparr>)
      | None \<Rightarrow> s\<lparr>errors := errors s @ [bidError trade]\<rparr>)"

text \<open>
  \<^verbatim>\<open>for symbol, trades := range *allTrades\<close>: \<open>allTrades\<close> lists the entries of the map that
  \<^verbatim>\<open>GetLastTrades()\<close> returns in the order in which this run of the range visits them.
\<close>

definition joinSymbol :: "int \<Rightarrow> joined \<Rightarrow> string \<times> matcheng_Trade list \<Rightarrow> joined" where
  "joinSymbol height s entry = foldl (joinTrade height (fst entry)) s (snd entry)"

definition joinAll :: "int \<Rightarrow> groupedTrades \<Rightarrow> (string \<times> matcheng_Trade list) list \<Rightarrow> joined" where
  "joinAll height g allTrades =
     foldl (joinSymbol height) \<lparr>grouped = g, toPublish = [], tradeIdx = 0, errors = []\<rparr> allTrades"

subsection \<open>The publisher and the block\<close>

record Header =
  Height :: int
  Time :: int

record PublicationConfig =
  PublishMarketData :: bool
  PublishAccountBalance :: bool
  PublishOrderBook :: bool

text \<open>
  Modelled from the spec: \<^verbatim>\<open>utils.SameDayInUTC\<close> is outside the files at hand; the spec
  describes it as the two block times having the same UTC date. Block times are seconds
  since the epoch, so the date is the number of whole days.
\<close>

definition SameDayInUTC :: "int \<Rightarrow> int \<Rightarrow> bool" where
  "SameDayInUTC first second = (first div 86400 = second div 86400)"

text \<open>
  Modelled from the spec: \<^verbatim>\<open>ShouldPublish\<close> of \<^verbatim>\<open>pub.MarketDataPublisher\<close> is outside the
  files at hand. By the spec it aggregates the per-feed flags and the liveness of the worker.
\<close>

definition ShouldPublish :: "PublicationConfig \<Rightarrow> bool \<Rightarrow> bool" where
  "ShouldPublish cfg live =
     (live \<and> (PublishMarketData cfg \<or> PublishAccountBalance cfg \<or> PublishOrderBook cfg))"

text \<open>
  Modelled from the spec: \<^verbatim>\<open>Init\<close> and \<^verbatim>\<open>Stop\<close> of \<^verbatim>\<open>pub.MarketDataPublisher\<close> are outside
  the files at hand. By the spec a publisher whose sink fails to initialise is not live.
  \<open>NewBinanceChain_IsLive\<close> is the liveness bit that lines 112 to 130 of \<^verbatim>\<open>NewBinanceChain\<close>
  leave behind: the publisher is created and initialised only when a flag is set,
  \<open>init_ok\<close> tells whether \<^verbatim>\<open>Init\<close> returned no error (after an error the code calls
  \<^verbatim>\<open>Stop\<close>), and the zero publisher is not live.
\<close>

definition NewBinanceChain_IsLive :: "PublicationConfig \<Rightarrow> bool \<Rightarrow> bool" where
  "NewBinanceChain_IsLive cfg init_ok =
     (if PublishMarketData cfg \<or> PublishAccountBalance cfg \<or> PublishOrderBook cfg
      then init_ok else False)"

text \<open>
  Modelled from the spec: \<^verbatim>\<open>order.ChangedPriceLevels\<close> is declared outside the files at
  hand; per symbol it holds the bid and the ask levels, each a price with its quantity.
\<close>

type_synonym ChangedPriceLevels = "(string \<times> (int \<times> int) list \<times> (int \<times> int) list) list"

record BlockInfoToPublish =
  height :: int
  timestamp :: int
  tradesToPublish :: "pub_Trade list"
  orderChanges :: "OrderChange list"
  orderChangesMap :: orderChangesMap
  accounts :: "string \<rightharpoonup> Account"
  latestPricesLevels :: ChangedPriceLevels

definition NewBlockInfoToPublish ::
  "int \<Rightarrow> int \<Rightarrow> pub_Trade list \<Rightarrow> OrderChange list \<Rightarrow> orderChangesMap \<Rightarrow> (string \<rightharpoonup> Account)
     \<Rightarrow> ChangedPriceLevels \<Rightarrow> BlockInfoToPublish" where
  "NewBlockInfoToPublish h ts trs ocs ocm accs lvls =
     \<lparr>height = h, timestamp = ts, tradesToPublish = trs, orderChanges = ocs,
      orderChangesMap = ocm, accounts = accs, latestPricesLevels = lvls\<rparr>"

text \<open>
  What the \<^verbatim>\<open>select\<close> of lines 388 to 395 receives, one entry for each round of the loop.
\<close>

datatype selected = Recv_ToRemoveOrderIdCh string | Recv_RemoveDoneCh

text \<open>
  The effects of \<^verbatim>\<open>EndBlocker\<close> on its collaborators, in the order in which they happen.
  \<open>MatchAndAllocateAll True\<close> is the call with \<^verbatim>\<open>feeCollectorForTrades\<close>, \<open>False\<close> the
  call with \<^verbatim>\<open>nil\<close>.
\<close>

datatype event =
    MatchAndAllocateAll bool
  | EndBlockAsync
  | EndBreatheBlock
  | Recv_icoDone
  | Logger_Error string
  | Send_ToPublishCh BlockInfoToPublish
  | ClearOrderChanges
  | Reset_InvolvedAddresses

text \<open>
  What one call of \<^verbatim>\<open>EndBlocker\<close> reads from the application object, from its context and
  from the collaborators that are outside the files at hand. \<open>matched_Transfers\<close> are the
  Transfers that \<^verbatim>\<open>MatchAndAllocateAll\<close> passes to its callback, in order;
  \<open>matched_Header\<close> is the header of the context it returns; \<open>matched_OrderChangesMap\<close>
  and \<open>breathed_OrderChangesMap\<close> are what the matching and \<^verbatim>\<open>EndBreatheBlock\<close> do to
  \<^verbatim>\<open>OrderChangesMap\<close>. \<open>LastTrades\<close> lists the entries of the map of \<^verbatim>\<open>GetLastTrades()\<close> in
  visiting order. \<open>InvolvedAddresses\<close> is the result of the type assertion on
  \<^verbatim>\<open>ctx.Value(InvolvedAddressKey)\<close>: its keys in visiting order, or \<open>None\<close> when it fails.
\<close>

record inputs =
  publicationConfig :: PublicationConfig
  IsLive :: bool
  FeeCollectionChannelSize :: nat
  checkState_Header :: Header
  ctx_Header :: Header
  matched_Transfers :: "Transfer list"
  matched_Header :: Header
  matched_OrderChangesMap :: "orderChangesMap \<Rightarrow> orderChangesMap"
  LastTrades :: "(string \<times> matcheng_Trade list) list"
  breathed_OrderChangesMap :: "orderChangesMap \<Rightarrow> orderChangesMap"
  InvolvedAddresses :: "string list option"
  LastOrdersCopy :: "OrderChange list \<times> orderChangesMap"
  TradeRelatedAccounts :: "string list"
  AccountMapper_GetAccount :: "string \<Rightarrow> auth_Account option"
  OrderBookForPublish :: ChangedPriceLevels
  selects :: "selected list"

text \<open>
  A run of \<^verbatim>\<open>EndBlocker\<close> either returns, or panics, or waits for ever at a channel
  operation: at the send on \<^verbatim>\<open>transCh\<close> or at the \<^verbatim>\<open>select\<close> of the removal loop. The
  collaborators are taken to return, the ICO handler to signal its completion and the worker
  to make room in \<^verbatim>\<open>ToPublishCh\<close>.
\<close>

datatype blocked_at = At_transCh | At_select

datatype halt = Panicked panic | Blocked blocked_at

datatype ResponseEndBlock = ResponseEndBlock

subsection \<open>\<^verbatim>\<open>EndBlocker\<close>\<close>

text \<open>Lines 250 to 337. The result is the map, the context and \<^verbatim>\<open>tradesToPublish\<close>.\<close>

definition normalBlock ::
  "inputs \<Rightarrow> orderChangesMap
     \<Rightarrow> event list \<times> (halt + orderChangesMap \<times> Header \<times> pub_Trade list)" where
  "normalBlock x ocm =
     (if PublishMarketData (publicationConfig x) \<and> IsLive x then
        (case collect (FeeCollectionChannelSize x) [] (matched_Transfers x) of
           None \<Rightarrow> ([MatchAndAllocateAll True], Inl (Blocked At_transCh))
         | Some transCh \<Rightarrow>
             (case drain (matched_OrderChangesMap x ocm, Map.empty) transCh of
                Inl p \<Rightarrow> ([MatchAndAllocateAll True], Inl (Panicked p))
              | Inr (ocm', groupedTrades) \<Rightarrow>
                  (let j = joinAll (Height (matched_Header x)) groupedTrades (LastTrades x)
                   in (MatchAndAllocateAll True # map Logger_Error (errors j),
                       Inr (ocm', matched_Header x, toPublish j)))))
      else
        ([MatchAndAllocateAll False],
         Inr (matched_OrderChangesMap x ocm, matched_Header x, [])))"

text \<open>Lines 339 to 346.\<close>

definition breatheBlock ::
  "inputs \<Rightarrow> orderChangesMap
     \<Rightarrow> event list \<times> (halt + orderChangesMap \<times> Header \<times> pub_Trade list)" where
  "breatheBlock x ocm =
     ([EndBlockAsync, EndBreatheBlock, Recv_icoDone],
      Inr (breathed_OrderChangesMap x ocm, ctx_Header x, []))"

text \<open>Lines 387 to 396: \<open>None\<close> when no \<^verbatim>\<open>RemoveDoneCh\<close> signal is ever received.\<close>

fun removeLoop :: "orderChangesMap \<Rightarrow> selected list \<Rightarrow> orderChangesMap option" where
  "removeLoop ocm [] = None"
| "removeLoop ocm (Recv_ToRemoveOrderIdCh oid # rest) = removeLoop (ocm(oid := None)) rest"
| "removeLoop ocm (Recv_RemoveDoneCh # rest) = Some ocm"

text \<open>Lines 359 to 368: the accounts to publish and the errors logged on the way.\<close>

definition accountsToPublish :: "inputs \<Rightarrow> (string \<rightharpoonup> Account) \<times> string list" where
  "accountsToPublish x =
     (if PublishAccountBalance (publicationConfig x) then
        (case InvolvedAddresses x of
           Some txRelatedAccounts \<Rightarrow>
             getAllChangedAccountBalances (AccountMapper_GetAccount x)
               txRelatedAccounts (TradeRelatedAccounts x)
         | None \<Rightarrow>
             getAllChangedAccountBalances (AccountMapper_GetAccount x)
               [] (TradeRelatedAccounts x))
      else (Map.empty, []))"

text \<open>Lines 369 to 372.\<close>

definition latestPriceLevels :: "inputs \<Rightarrow> ChangedPriceLevels" where
  "latestPriceLevels x =
     (if PublishOrderBook (publicationConfig x) then OrderBookForPublish x else [])"

text \<open>The payload of line 379, for the context and the trades that the block phase leaves.\<close>

definition infoToPublish :: "inputs \<Rightarrow> Header \<Rightarrow> pub_Trade list \<Rightarrow> BlockInfoToPublish" where
  "infoToPublish x ctx trs =
     NewBlockInfoToPublish (Height ctx) (Time (ctx_Header x)) trs
       (fst (LastOrdersCopy x)) (snd (LastOrdersCopy x))
       (fst (accountsToPublish x)) (latestPriceLevels x)"

text \<open>
  Modelled from the spec: \<^verbatim>\<open>ClearOrderChanges\<close> of the keeper is outside the files at hand;
  by the spec it clears the list of order changes and keeps \<^verbatim>\<open>OrderChangesMap\<close>, so in
  lines 353 to 397 it is an event and the map goes to the removal loop as it is.
\<close>

definition publication ::
  "inputs \<Rightarrow> orderChangesMap \<times> Header \<times> pub_Trade list
     \<Rightarrow> event list \<times> (halt + orderChangesMap)" where
  "publication x s =
     (if ShouldPublish (publicationConfig x) (IsLive x) then
        (let evs = map Logger_Error (snd (accountsToPublish x)) @
                   [Send_ToPublishCh (infoToPublish x (fst (snd s)) (snd (snd s))),
                    ClearOrderChanges, Reset_InvolvedAddresses]
         in (case removeLoop (fst s) (selects x) of
               None \<Rightarrow> (evs, Inl (Blocked At_select))
             | Some ocm' \<Rightarrow> (evs, Inr ocm')))
      else ([], Inr (fst s)))"

text \<open>Lines 249 to 347: the choice between the normal block and the breathe block.\<close>

definition blockPhase ::
  "inputs \<Rightarrow> orderChangesMap
     \<Rightarrow> event list \<times> (halt + orderChangesMap \<times> Header \<times> pub_Trade list)" where
  "blockPhase x ocm =
     (if SameDayInUTC (Time (checkState_Header x)) (Time (ctx_Header x))
         \<or> Height (ctx_Header x) = 1
      then normalBlock x ocm
      else breatheBlock x ocm)"

text \<open>
  \<^verbatim>\<open>EndBlocker\<close>: the events of the run and its outcome, which is a halt or the map together
  with the empty response of line 399.
\<close>

definition EndBlocker ::
  "inputs \<Rightarrow> orderChangesMap \<Rightarrow> event list \<times> (halt + orderChangesMap \<times> ResponseEndBlock)" where
  "EndBlocker x ocm =
     (case blockPhase x ocm of
        (evs, Inl h) \<Rightarrow> (evs, Inl h)
      | (evs, Inr s) \<Rightarrow>
          (case publication x s of
             (evs', Inl h) \<Rightarrow> (evs @ evs', Inl h)
           | (evs', Inr ocm') \<Rightarrow> (evs @ evs', Inr (ocm', ResponseEndBlock))))"

subsection \<open>Notions used in the statements\<close>

text \<open>A trade of the matching has a group: \<^verbatim>\<open>groupedTrades[trade.BId][trade.SId]\<close> exists.\<close>

definition hasGroup :: "groupedTrades \<Rightarrow> matcheng_Trade \<Rightarrow> bool" where
  "hasGroup g trade =
     (case g (BId trade) of
        None \<Rightarrow> False
      | Some groupedByBid \<Rightarrow> (case groupedByBid (SId trade) of None \<Rightarrow> False | Some _ \<Rightarrow> True))"



text \<open>The payloads sent on \<^verbatim>\<open>ToPublishCh\<close> in a run.\<close>

fun sent :: "event list \<Rightarrow> BlockInfoToPublish list" where
  "sent [] = []"
| "sent (Send_ToPublishCh info # evs) = info # sent evs"
| "sent (_ # evs) = sent evs"

text \<open>The order id on which an expired Transfer records its fee.\<close>

definition expiredKey :: "Transfer \<Rightarrow> string" where
  "expiredKey tran = (if IsBuyer tran then Bid tran else Sid tran)"

subsection \<open>The worker's side of the removal loop\<close>

text \<open>
  Modelled from the spec: the publisher's worker is outside the files at hand. By the spec
  it sends the ids that have become eligible for removal on \<^verbatim>\<open>ToRemoveOrderIdCh\<close> and, on
  completion, sends on \<^verbatim>\<open>RemoveDoneCh\<close>. By lines 117 to 119 of \<^verbatim>\<open>NewBinanceChain\<close> the first
  channel is buffered, with capacity \<open>n\<close> (\<^verbatim>\<open>pub.ToRemoveOrderIdChannelSize\<close>), and the second is
  not. \<open>receptions n ids buf sel\<close>: when the worker still has \<open>ids\<close> to send and \<open>buf\<close> is the
  content of the buffer, \<open>sel\<close> is a sequence of receptions that the \<^verbatim>\<open>select\<close> of the removal
  loop can make up to its exit. A \<^verbatim>\<open>select\<close> with more than one ready case takes any of them,
  so the signal on \<^verbatim>\<open>RemoveDoneCh\<close> can be received as soon as the worker offers it.
\<close>

inductive receptions :: "nat \<Rightarrow> string list \<Rightarrow> string list \<Rightarrow> selected list \<Rightarrow> bool" where
  signal: "receptions n [] buf [Recv_RemoveDoneCh]"
| buffer: "length buf < n \<Longrightarrow> receptions n ids (buf @ [oid]) sel \<Longrightarrow> receptions n (oid # ids) buf sel"
| receive: "receptions n ids buf sel \<Longrightarrow>
            receptions n ids (oid # buf) (Recv_ToRemoveOrderIdCh oid # sel)"
| rendezvous: "receptions n ids [] sel \<Longrightarrow>
               receptions n (oid # ids) [] (Recv_ToRemoveOrderIdCh oid # sel)"

subsection \<open>Concrete blocks\<close>

text \<open>
  An account as in the publication test: free BNB and XYZ, and BNB locked in an open order.
\<close>

definition buyerAcc :: NamedAccount where
  "buyerAcc =
     \<lparr>GetCoins = [\<lparr>Denom = ''BNB'', Amount = 99999996940\<rparr>,
                  \<lparr>Denom = ''XYZ'', Amount = 100000000000\<rparr>],
      GetFrozenCoins = [],
      GetLockedCoins = [\<lparr>Denom = ''BNB'', Amount = 3060\<rparr>]\<rparr>"

definition accountsOf :: "string \<Rightarrow> auth_Account option" where
  "accountsOf a =
     (if a = ''bnb1buyer'' then Some (IsNamedAccount buyerAcc)
      else if a = ''bnb1module'' then Some OtherAccount
      else None)"

definition fillTransfer :: "string \<Rightarrow> string \<Rightarrow> bool \<Rightarrow> int \<Rightarrow> Transfer" where
  "fillTransfer b s buyer fee =
     \<lparr>Bid = b, Sid = s, IsBuyer = buyer, IsExpired = False, FeeFree = False,
      tran_Fee = \<lparr>Tokens = [\<lparr>Denom = ''BNB'', Amount = fee\<rparr>]\<rparr>\<rparr>"

definition iocExpire :: Transfer where
  "iocExpire =
     \<lparr>Bid = ''b9'', Sid = ''s9'', IsBuyer = True, IsExpired = True, FeeFree = False,
      tran_Fee = \<lparr>Tokens = [\<lparr>Denom = ''BNB'', Amount = 500\<rparr>]\<rparr>\<rparr>"

definition changeOf :: "string \<Rightarrow> ChangeType \<Rightarrow> OrderChange" where
  "changeOf oid k = \<lparr>oc_Id = oid, Tpe = k, FeeAsset = [], Fee = 0\<rparr>"

definition tradeABC :: matcheng_Trade where
  "tradeABC = \<lparr>BId = ''b1'', SId = ''s1'', LastPx = 100, LastQty = 5, m_BuyCumQty = 5\<rparr>"

definition tradeXYZ :: matcheng_Trade where
  "tradeXYZ =
     \<lparr>BId = ''b2'', SId = ''s2'', LastPx = 102000, LastQty = 3000000, m_BuyCumQty = 3000000\<rparr>"

text \<open>
  A normal block at height 43 with two symbols that trade, market data published and a
  live worker that signals completion at once.
\<close>

definition block43 :: inputs where
  "block43 =
     \<lparr>publicationConfig =
        \<lparr>PublishMarketData = True, PublishAccountBalance = True, PublishOrderBook = True\<rparr>,
      IsLive = True,
      FeeCollectionChannelSize = 4,
      checkState_Header = \<lparr>Height = 42, Time = 100\<rparr>,
      ctx_Header = \<lparr>Height = 43, Time = 101\<rparr>,
      matched_Transfers =
        [fillTransfer ''b1'' ''s1'' True 3, fillTransfer ''b1'' ''s1'' False 3,
         fillTransfer ''b2'' ''s2'' True 1530],
      matched_Header = \<lparr>Height = 43, Time = 101\<rparr>,
      matched_OrderChangesMap = (\<lambda>m. m),
      LastTrades = [(''ABC_BNB'', [tradeABC]), (''XYZ_BNB'', [tradeXYZ])],
      breathed_OrderChangesMap = (\<lambda>m. m),
      InvolvedAddresses = Some [''bnb1buyer''],
      LastOrdersCopy = ([], Map.empty),
      TradeRelatedAccounts = [''bnb1module''],
      AccountMapper_GetAccount = accountsOf,
      OrderBookForPublish = [],
      selects = [Recv_RemoveDoneCh]\<rparr>"

text \<open>The same block when the range over the trades visits the symbols the other way round.\<close>

definition block43_rev :: inputs where
  "block43_rev = block43\<lparr>LastTrades := [(''XYZ_BNB'', [tradeXYZ]), (''ABC_BNB'', [tradeABC])]\<rparr>"

text \<open>The same block with a fee-collection channel of capacity two.\<close>

definition block43_small :: inputs where
  "block43_small = block43\<lparr>FeeCollectionChannelSize := 2\<rparr>"

text \<open>The same block when the sink failed at start-up.\<close>

definition block43_dead :: inputs where
  "block43_dead = block43\<lparr>IsLive := False\<rparr>"

text \<open>A breathe block: height 1000, the day after.\<close>

definition block1000 :: inputs where
  "block1000 =
     block43\<lparr>checkState_Header := \<lparr>Height = 999, Time = 1704153590\<rparr>,
             ctx_Header := \<lparr>Height = 1000, Time = 1704153605\<rparr>\<rparr>"

text \<open>
  An expired order on the seller's side that pays the expiry fee.
\<close>

definition gtcExpire :: Transfer where
  "gtcExpire =
     \<lparr>Bid = ''b7'', Sid = ''s7'', IsBuyer = False, IsExpired = True, FeeFree = False,
      tran_Fee = \<lparr>Tokens = [\<lparr>Denom = ''BNB'', Amount = 1000\<rparr>]\<rparr>\<rparr>"

text \<open>
  The state of the join in a block of height 1043 after twelve published trades, with the
  group of the orders b1 and s1 on which the buyer's fee is already recorded.
\<close>

definition joined12 :: joined where
  "joined12 =
     \<lparr>grouped = [''b1'' \<mapsto> [''s1'' \<mapsto>
        new_pub_Trade\<lparr>Sid_t := ''s1'', Bid_t := ''b1'', Bfee := 3, BfeeAsset := ''BNB''\<rparr>]],
      toPublish = [], tradeIdx = 12, errors = []\<rparr>"


section \<open>Properties of the account aggregator\<close>

lemma freeStep_blank:
  "\<forall>ab \<in> set (assets s). Frozen ab = 0 \<and> Locked ab = 0 \<Longrightarrow>
   \<forall>ab \<in> set (assets (freeStep s c)). Frozen ab = 0 \<and> Locked ab = 0"
  by (auto simp: freeStep_def Let_def split: option.splits)

lemma frozenStep_assets: "assets (frozenStep s c) = assets s"
  by (simp add: frozenStep_def split: option.splits)

lemma lockedStep_assets: "assets (lockedStep s c) = assets s"
  by (simp add: lockedStep_def split: option.splits)

lemma foldl_frozenStep_assets: "assets (foldl frozenStep s cs) = assets s"
  by (induction cs arbitrary: s) (simp_all add: frozenStep_assets)

lemma foldl_lockedStep_assets: "assets (foldl lockedStep s cs) = assets s"
  by (induction cs arbitrary: s) (simp_all add: lockedStep_assets)

lemma foldl_freeStep_blank:
  "\<forall>ab \<in> set (assets s). Frozen ab = 0 \<and> Locked ab = 0 \<Longrightarrow>
   \<forall>ab \<in> set (assets (foldl freeStep s cs)). Frozen ab = 0 \<and> Locked ab = 0"
proof (induction cs arbitrary: s)
  case Nil
  then show ?case by simp
next
  case (Cons c cs)
  from Cons.prems have "\<forall>ab \<in> set (assets (freeStep s c)). Frozen ab = 0 \<and> Locked ab = 0"
    by (rule freeStep_blank)
  then show ?case using Cons.IH by simp
qed

text \<open>
  Whatever the frozen and locked coin lists hold, every published AssetBalance has
  Frozen = 0 and Locked = 0: the writes of the second and third loop go to the objects
  in the store, never to the copies in the slice.
\<close>

lemma accountToPublish_only_free:
  "ab \<in> set (acc_assets (accountToPublish a acc)) \<Longrightarrow> Frozen ab = 0 \<and> Locked ab = 0"
proof -
  assume h: "ab \<in> set (acc_assets (accountToPublish a acc))"
  have "\<forall>ab \<in> set (assets (foldl freeStep balances0 (GetCoins acc))). Frozen ab = 0 \<and> Locked ab = 0"
    by (rule foldl_freeStep_blank) (simp add: balances0_def)
  with h show ?thesis
    by (simp add: accountToPublish_def Let_def foldl_lockedStep_assets foldl_frozenStep_assets)
qed

lemma accountStep_keeps:
  "fst s a = Some v \<Longrightarrow> fst (accountStep G s b) a = Some v"
  by (auto simp: accountStep_def split: option.splits auth_Account.splits)

lemma accountStep_errs:
  "e \<in> set (snd s) \<Longrightarrow> e \<in> set (snd (accountStep G s b))"
  by (auto simp: accountStep_def split: option.splits auth_Account.splits)

lemma accountStep_dom:
  "fst (accountStep G s b) a = Some v \<Longrightarrow> fst s a = Some v \<or> a = b"
  by (auto simp: accountStep_def split: option.splits auth_Account.splits if_splits)

lemma accountStep_named:
  "fst s a = None \<Longrightarrow> G a = Some (IsNamedAccount acc) \<Longrightarrow>
   fst (accountStep G s a) a = Some (accountToPublish a acc)"
  by (simp add: accountStep_def)

lemma accountStep_unnamed:
  "fst s a = None \<Longrightarrow> \<forall>acc. G a \<noteq> Some (IsNamedAccount acc) \<Longrightarrow>
   fst (accountStep G s b) a = None"
  by (auto simp: accountStep_def split: option.splits auth_Account.splits)

lemma accountStep_logged:
  "fst s a = None \<Longrightarrow> \<forall>acc. G a \<noteq> Some (IsNamedAccount acc) \<Longrightarrow>
   accountError a \<in> set (snd (accountStep G s a))"
  by (auto simp: accountStep_def split: option.splits auth_Account.splits)

lemma accountStep_other:
  "a \<noteq> b \<Longrightarrow> fst (accountStep G s b) a = fst s a"
  by (auto simp: accountStep_def split: option.splits auth_Account.splits)

lemma gab_keeps:
  "fst s a = Some v \<Longrightarrow> fst (getAccountBalances G s accs) a = Some v"
  unfolding getAccountBalances_def
  by (induction accs arbitrary: s) (simp_all add: accountStep_keeps)

lemma gab_errs:
  "e \<in> set (snd s) \<Longrightarrow> e \<in> set (snd (getAccountBalances G s accs))"
  unfolding getAccountBalances_def
  by (induction accs arbitrary: s) (simp_all add: accountStep_errs)

lemma gab_dom:
  "fst (getAccountBalances G s accs) a = Some v \<Longrightarrow> fst s a = Some v \<or> a \<in> set accs"
  unfolding getAccountBalances_def
proof (induction accs arbitrary: s)
  case Nil
  then show ?case by simp
next
  case (Cons b accs)
  from Cons.prems have "fst (foldl (accountStep G) (accountStep G s b) accs) a = Some v"
    by simp
  then have "fst (accountStep G s b) a = Some v \<or> a \<in> set accs"
    by (rule Cons.IH)
  then show ?case using accountStep_dom [of G s b a v] by auto
qed

lemma gab_named:
  "a \<in> set accs \<Longrightarrow> fst s a = None \<Longrightarrow> G a = Some (IsNamedAccount acc) \<Longrightarrow>
   fst (getAccountBalances G s accs) a = Some (accountToPublish a acc)"
proof (induction accs arbitrary: s)
  case Nil
  then show ?case by simp
next
  case (Cons b accs)
  show ?case
  proof (cases "b = a")
    case True
    have "fst (accountStep G s a) a = Some (accountToPublish a acc)"
      using Cons.prems by (simp add: accountStep_named)
    then have "fst (getAccountBalances G (accountStep G s a) accs) a = Some (accountToPublish a acc)"
      by (rule gab_keeps)
    with True show ?thesis by (simp add: getAccountBalances_def)
  next
    case False
    with Cons.prems have in_rest: "a \<in> set accs" by simp
    from False Cons.prems have "fst (accountStep G s b) a = None"
      by (simp add: accountStep_other)
    then have "fst (getAccountBalances G (accountStep G s b) accs) a = Some (accountToPublish a acc)"
      using in_rest Cons.prems(3) by (simp add: Cons.IH)
    then show ?thesis by (simp add: getAccountBalances_def)
  qed
qed

lemma gab_unnamed:
  "fst s a = None \<Longrightarrow> \<forall>acc. G a \<noteq> Some (IsNamedAccount acc) \<Longrightarrow>
   fst (getAccountBalances G s accs) a = None"
  unfolding getAccountBalances_def
  by (induction accs arbitrary: s) (simp_all add: accountStep_unnamed)

lemma gab_logged:
  "a \<in> set accs \<Longrightarrow> fst s a = None \<Longrightarrow> \<forall>acc. G a \<noteq> Some (IsNamedAccount acc) \<Longrightarrow>
   accountError a \<in> set (snd (getAccountBalances G s accs))"
proof (induction accs arbitrary: s)
  case Nil
  then show ?case by simp
next
  case (Cons b accs)
  show ?case
  proof (cases "b = a")
    case True
    have "accountError a \<in> set (snd (accountStep G s a))"
      using Cons.prems by (simp add: accountStep_logged)
    then have "accountError a \<in> set (snd (getAccountBalances G (accountStep G s a) accs))"
      by (rule gab_errs)
    with True show ?thesis by (simp add: getAccountBalances_def)
  next
    case False
    with Cons.prems have in_rest: "a \<in> set accs" by simp
    from Cons.prems have "fst (accountStep G s b) a = None"
      by (simp add: accountStep_unnamed)
    then have "accountError a \<in> set (snd (getAccountBalances G (accountStep G s b) accs))"
      using in_rest Cons.prems(3) by (simp add: Cons.IH)
    then show ?thesis by (simp add: getAccountBalances_def)
  qed
qed

text \<open>
  Claim C2 says that the published Account has one AssetBalance for each denomination of
  the free, frozen or locked coins of the account, with the three amounts. The code does not
  do that: for the account of the publication test, which has 3060 BNB locked, the published
  balance of BNB has Locked = 0 (the test expects 3060), because \<^verbatim>\<open>assetsMap\<close> points to
  \<^verbatim>\<open>newAB\<close> and not to the copy of it that \<^verbatim>\<open>append\<close> has put into \<^verbatim>\<open>assets\<close>.
\<close>

theorem getAccountBalances_drops_locked:
  "GetLockedCoins buyerAcc = [\<lparr>Denom = ''BNB'', Amount = 3060\<rparr>] \<and>
   fst (getAccountBalances accountsOf (Map.empty, []) [''bnb1buyer'']) ''bnb1buyer'' =
     Some \<lparr>acc_address = ''bnb1buyer'',
            acc_assets = [\<lparr>Asset = ''BNB'', Free = 99999996940, Frozen = 0, Locked = 0\<rparr>,
                          \<lparr>Asset = ''XYZ'', Free = 100000000000, Frozen = 0, Locked = 0\<rparr>]\<rparr>"
  by (simp add: getAccountBalances_def accountStep_def accountsOf_def buyerAcc_def
        accountToPublish_def balances0_def freeStep_def frozenStep_def lockedStep_def Let_def)

text \<open>
  Claim C9: the keys of the map that \<^verbatim>\<open>getAllChangedAccountBalances\<close> returns are among the
  addresses of the two sets; every address of the two sets whose account exists and is a
  NamedAccount is a key, with the Account built for it; every address whose lookup or type
  assertion fails is no key, and its failure is logged.
\<close>

theorem getAllChangedAccountBalances_scope:
  "dom (fst (getAllChangedAccountBalances G tx tr)) \<subseteq> set tx \<union> set tr \<and>
   (\<forall>a \<in> set tx \<union> set tr. \<forall>acc. G a = Some (IsNamedAccount acc) \<longrightarrow>
      fst (getAllChangedAccountBalances G tx tr) a = Some (accountToPublish a acc)) \<and>
   (\<forall>a \<in> set tx \<union> set tr. (\<forall>acc. G a \<noteq> Some (IsNamedAccount acc)) \<longrightarrow>
      fst (getAllChangedAccountBalances G tx tr) a = None \<and>
      accountError a \<in> set (snd (getAllChangedAccountBalances G tx tr)))"
proof (intro conjI ballI allI impI)
  let ?s1 = "getAccountBalances G (Map.empty, []) tx"
  show "dom (fst (getAllChangedAccountBalances G tx tr)) \<subseteq> set tx \<union> set tr"
  proof
    fix a assume "a \<in> dom (fst (getAllChangedAccountBalances G tx tr))"
    then obtain v where "fst (getAccountBalances G ?s1 tr) a = Some v"
      by (auto simp: getAllChangedAccountBalances_def)
    then have "fst ?s1 a = Some v \<or> a \<in> set tr" by (rule gab_dom)
    then show "a \<in> set tx \<union> set tr" using gab_dom [of G "(Map.empty, [])" tx a v] by auto
  qed
next
  fix a acc
  let ?s1 = "getAccountBalances G (Map.empty, []) tx"
  assume a: "a \<in> set tx \<union> set tr" and g: "G a = Some (IsNamedAccount acc)"
  show "fst (getAllChangedAccountBalances G tx tr) a = Some (accountToPublish a acc)"
  proof (cases "a \<in> set tx")
    case True
    then have "fst ?s1 a = Some (accountToPublish a acc)"
      using g by (simp add: gab_named)
    then show ?thesis by (simp add: getAllChangedAccountBalances_def gab_keeps)
  next
    case False
    with a have tr: "a \<in> set tr" by simp
    show ?thesis
    proof (cases "fst ?s1 a")
      case None
      with tr g show ?thesis by (simp add: getAllChangedAccountBalances_def gab_named)
    next
      case (Some v)
      with False show ?thesis using gab_dom [of G "(Map.empty, [])" tx a v] by simp
    qed
  qed
next
  fix a
  let ?s1 = "getAccountBalances G (Map.empty, []) tx"
  assume a: "a \<in> set tx \<union> set tr" and g: "\<forall>acc. G a \<noteq> Some (IsNamedAccount acc)"
  have n1: "fst ?s1 a = None" using g by (simp add: gab_unnamed)
  show "fst (getAllChangedAccountBalances G tx tr) a = None"
    using n1 g by (simp add: getAllChangedAccountBalances_def gab_unnamed)
  show "accountError a \<in> set (snd (getAllChangedAccountBalances G tx tr))"
  proof (cases "a \<in> set tx")
    case True
    then have "accountError a \<in> set (snd ?s1)" using g by (simp add: gab_logged)
    then show ?thesis by (simp add: getAllChangedAccountBalances_def gab_errs)
  next
    case False
    with a have "a \<in> set tr" by simp
    then show ?thesis using n1 g by (simp add: getAllChangedAccountBalances_def gab_logged)
  qed
qed

theorem getAllChangedAccountBalances_scope_witness:
  "''bnb1buyer'' \<in> set [''bnb1buyer'', ''bnb1ghost''] \<union> set [''bnb1module''] \<and>
   accountsOf ''bnb1buyer'' = Some (IsNamedAccount buyerAcc) \<and>
   fst (getAllChangedAccountBalances accountsOf [''bnb1buyer'', ''bnb1ghost''] [''bnb1module''])
     ''bnb1buyer'' = Some (accountToPublish ''bnb1buyer'' buyerAcc) \<and>
   fst (getAllChangedAccountBalances accountsOf [''bnb1buyer'', ''bnb1ghost''] [''bnb1module''])
     ''bnb1module'' = None \<and>
   accountError ''bnb1ghost''
     \<in> set (snd (getAllChangedAccountBalances accountsOf [''bnb1buyer'', ''bnb1ghost'']
                   [''bnb1module'']))"
proof -
  have a: "''bnb1buyer'' \<in> set [''bnb1buyer'', ''bnb1ghost''] \<union> set [''bnb1module'']"
    and b: "''bnb1module'' \<in> set [''bnb1buyer'', ''bnb1ghost''] \<union> set [''bnb1module'']"
    and c: "''bnb1ghost'' \<in> set [''bnb1buyer'', ''bnb1ghost''] \<union> set [''bnb1module'']"
    by simp_all
  have na: "accountsOf ''bnb1buyer'' = Some (IsNamedAccount buyerAcc)"
    and nb: "\<forall>acc. accountsOf ''bnb1module'' \<noteq> Some (IsNamedAccount acc)"
    and nc: "\<forall>acc. accountsOf ''bnb1ghost'' \<noteq> Some (IsNamedAccount acc)"
    by (simp_all add: accountsOf_def)
  from getAllChangedAccountBalances_scope
         [of accountsOf "[''bnb1buyer'', ''bnb1ghost'']" "[''bnb1module'']"] a b c na nb nc
  show ?thesis by blast
qed

section \<open>Properties of the fee collection\<close>

lemma setFeeAsset_ok:
  "Tokens (tran_Fee tran) = c # cs \<Longrightarrow> m k = Some oc \<Longrightarrow>
   setFeeAsset m k tran = Inr (m(k \<mapsto> oc\<lparr>FeeAsset := Denom c\<rparr>))"
  by (simp add: setFeeAsset_def)

lemma setFee_ok:
  "Tokens (tran_Fee tran) = c # cs \<Longrightarrow> m k = Some oc \<Longrightarrow>
   setFee m k tran = Inr (m(k \<mapsto> oc\<lparr>Fee := Amount c\<rparr>))"
  by (simp add: setFee_def)

lemma expiredStep_ok:
  "\<not> FeeFree tran \<Longrightarrow> Tokens (tran_Fee tran) = c # cs \<Longrightarrow> m (expiredKey tran) = Some oc \<Longrightarrow>
   expiredStep m tran = Inr (m(expiredKey tran \<mapsto> oc\<lparr>FeeAsset := Denom c, Fee := Amount c\<rparr>))"
  by (auto simp: expiredStep_def expiredKey_def setFeeAsset_def setFee_def)

text \<open>
  Claim C7 says that every expired Transfer that is not fee-free records its fee on the
  entry of its order. As stated it fails: for the seller's side of an expired order whose Sid
  has no entry in \<^verbatim>\<open>OrderChangesMap\<close> the assignment of line 274 goes through the nil
  pointer, the run panics and nothing is recorded.
\<close>

theorem drainStep_no_entry_counterexample:
  "IsExpired gtcExpire \<and> \<not> FeeFree gtcExpire \<and> \<not> IsBuyer gtcExpire \<and>
   Tokens (tran_Fee gtcExpire) = [\<lparr>Denom = ''BNB'', Amount = 1000\<rparr>] \<and>
   [''b7'' \<mapsto> changeOf ''b7'' EXPIRED] (Sid gtcExpire) = None \<and>
   drainStep ([''b7'' \<mapsto> changeOf ''b7'' EXPIRED], Map.empty) gtcExpire =
     Inl NilPointerDereference"
  by (simp add: gtcExpire_def drainStep_def expiredStep_def setFeeAsset_def)

text \<open>
  Claim C7, amended: a Transfer that is expired and not fee-free, that carries a fee token
  and whose order has an entry in \<^verbatim>\<open>OrderChangesMap\<close> (under its Bid when it is the buyer's,
  under its Sid otherwise), records the asset and the amount of its first fee token on that
  entry; an expired Transfer that is fee-free leaves the map as it is.
\<close>

theorem drainStep_expired_fee:
  "(IsExpired tran \<and> \<not> FeeFree tran \<and> Tokens (tran_Fee tran) = c # cs \<and>
    m (expiredKey tran) = Some oc \<longrightarrow>
      drainStep (m, g) tran =
        Inr (m(expiredKey tran \<mapsto> oc\<lparr>FeeAsset := Denom c, Fee := Amount c\<rparr>), g)) \<and>
   (IsExpired tran \<and> FeeFree tran \<longrightarrow> drainStep (m, g) tran = Inr (m, g)) \<and>
   expiredKey tran = (if IsBuyer tran then Bid tran else Sid tran)"
  by (auto simp: drainStep_def expiredStep_ok) (simp_all add: expiredStep_def expiredKey_def)

theorem drainStep_expired_fee_witness:
  "IsExpired iocExpire \<and> \<not> FeeFree iocExpire \<and>
   Tokens (tran_Fee iocExpire) = [\<lparr>Denom = ''BNB'', Amount = 500\<rparr>] \<and>
   [''b9'' \<mapsto> changeOf ''b9'' IOC_NO_FILL] (expiredKey iocExpire) =
     Some (changeOf ''b9'' IOC_NO_FILL) \<and>
   drainStep ([''b9'' \<mapsto> changeOf ''b9'' IOC_NO_FILL], Map.empty) iocExpire =
     Inr ([''b9'' \<mapsto> \<lparr>oc_Id = ''b9'', Tpe = IOC_NO_FILL, FeeAsset = ''BNB'', Fee = 500\<rparr>],
          Map.empty) \<and>
   \<not> IsBuyer gtcExpire \<and>
   drainStep ([''s7'' \<mapsto> changeOf ''s7'' EXPIRED], Map.empty) gtcExpire =
     Inr ([''s7'' \<mapsto> \<lparr>oc_Id = ''s7'', Tpe = EXPIRED, FeeAsset = ''BNB'', Fee = 1000\<rparr>], Map.empty)"
proof -
  have h: "IsExpired iocExpire \<and> \<not> FeeFree iocExpire \<and>
      Tokens (tran_Fee iocExpire) = [\<lparr>Denom = ''BNB'', Amount = 500\<rparr>] \<and>
      [''b9'' \<mapsto> changeOf ''b9'' IOC_NO_FILL] (expiredKey iocExpire) =
        Some (changeOf ''b9'' IOC_NO_FILL)"
    by (simp add: iocExpire_def expiredKey_def)
  have k: "expiredKey iocExpire = ''b9''"
    by (simp add: iocExpire_def expiredKey_def)
  from drainStep_expired_fee
         [of iocExpire "\<lparr>Denom = ''BNB'', Amount = 500\<rparr>" "[]"
             "[''b9'' \<mapsto> changeOf ''b9'' IOC_NO_FILL]" "changeOf ''b9'' IOC_NO_FILL" Map.empty] h
  have "drainStep ([''b9'' \<mapsto> changeOf ''b9'' IOC_NO_FILL], Map.empty) iocExpire =
      Inr ([''b9'' \<mapsto> changeOf ''b9'' IOC_NO_FILL]
             (expiredKey iocExpire \<mapsto>
                (changeOf ''b9'' IOC_NO_FILL)
                  \<lparr>FeeAsset := Denom \<lparr>Denom = ''BNB'', Amount = 500\<rparr>,
                   Fee := Amount \<lparr>Denom = ''BNB'', Amount = 500\<rparr>\<rparr>),
           Map.empty)"
    by blast
  with h k have buyer: "IsExpired iocExpire \<and> \<not> FeeFree iocExpire \<and>
      Tokens (tran_Fee iocExpire) = [\<lparr>Denom = ''BNB'', Amount = 500\<rparr>] \<and>
      [''b9'' \<mapsto> changeOf ''b9'' IOC_NO_FILL] (expiredKey iocExpire) =
        Some (changeOf ''b9'' IOC_NO_FILL) \<and>
      drainStep ([''b9'' \<mapsto> changeOf ''b9'' IOC_NO_FILL], Map.empty) iocExpire =
        Inr ([''b9'' \<mapsto> \<lparr>oc_Id = ''b9'', Tpe = IOC_NO_FILL, FeeAsset = ''BNB'', Fee = 500\<rparr>],
             Map.empty)"
    by (simp add: changeOf_def)
  have nb: "\<not> IsBuyer gtcExpire"
    by (simp add: gtcExpire_def)
  have h2: "IsExpired gtcExpire \<and> \<not> FeeFree gtcExpire \<and>
      Tokens (tran_Fee gtcExpire) = [\<lparr>Denom = ''BNB'', Amount = 1000\<rparr>] \<and>
      [''s7'' \<mapsto> changeOf ''s7'' EXPIRED] (expiredKey gtcExpire) = Some (changeOf ''s7'' EXPIRED)"
    by (simp add: gtcExpire_def expiredKey_def)
  have k2: "expiredKey gtcExpire = ''s7''"
    by (simp add: gtcExpire_def expiredKey_def)
  from drainStep_expired_fee
         [of gtcExpire "\<lparr>Denom = ''BNB'', Amount = 1000\<rparr>" "[]"
             "[''s7'' \<mapsto> changeOf ''s7'' EXPIRED]" "changeOf ''s7'' EXPIRED" Map.empty] h2
  have "drainStep ([''s7'' \<mapsto> changeOf ''s7'' EXPIRED], Map.empty) gtcExpire =
      Inr ([''s7'' \<mapsto> changeOf ''s7'' EXPIRED]
             (expiredKey gtcExpire \<mapsto>
                (changeOf ''s7'' EXPIRED)
                  \<lparr>FeeAsset := Denom \<lparr>Denom = ''BNB'', Amount = 1000\<rparr>,
                   Fee := Amount \<lparr>Denom = ''BNB'', Amount = 1000\<rparr>\<rparr>),
           Map.empty)"
    by blast
  with k2 have seller: "drainStep ([''s7'' \<mapsto> changeOf ''s7'' EXPIRED], Map.empty) gtcExpire =
      Inr ([''s7'' \<mapsto> \<lparr>oc_Id = ''s7'', Tpe = EXPIRED, FeeAsset = ''BNB'', Fee = 1000\<rparr>], Map.empty)"
    by (simp add: changeOf_def)
  from buyer nb seller show ?thesis by (simp only: simp_thms)
qed

lemma expiredStep_dom:
  "expiredStep m tran = Inr m' \<Longrightarrow> dom m' = dom m"
  by (auto simp: expiredStep_def setFeeAsset_def setFee_def
           split: if_splits list.splits option.splits sum.splits)

lemma expiredStep_total:
  "FeeFree tran \<or> (Tokens (tran_Fee tran) \<noteq> [] \<and> expiredKey tran \<in> dom m) \<Longrightarrow>
   \<exists>m'. expiredStep m tran = Inr m'"
  by (auto simp: expiredStep_def expiredKey_def setFeeAsset_def setFee_def
           split: if_splits list.splits option.splits sum.splits)

lemma fillFee_total:
  "FeeFree tran \<or> Tokens (tran_Fee tran) \<noteq> [] \<Longrightarrow> \<exists>g'. fillFee g tran = Inr g'"
  by (auto simp: fillFee_def split: list.splits)

lemma expiredStep_index:
  "FeeFree tran \<or> Tokens (tran_Fee tran) \<noteq> [] \<Longrightarrow> expiredStep m tran \<noteq> Inl IndexOutOfRange"
  by (auto simp: expiredStep_def setFeeAsset_def setFee_def
           split: if_splits list.splits option.splits sum.splits)

lemma drainStep_index:
  "FeeFree tran \<or> Tokens (tran_Fee tran) \<noteq> [] \<Longrightarrow> drainStep s tran \<noteq> Inl IndexOutOfRange"
  using expiredStep_index [of tran "fst s"] fillFee_total [of tran "groupStep (snd s) tran"]
  by (auto simp: drainStep_def split: sum.splits)

lemma drainStep_total:
  assumes tok: "FeeFree tran \<or> Tokens (tran_Fee tran) \<noteq> []"
    and key: "\<not> IsExpired tran \<or> FeeFree tran \<or> expiredKey tran \<in> dom (fst s)"
  shows "\<exists>s'. drainStep s tran = Inr s' \<and> dom (fst s') = dom (fst s)"
proof (cases "IsExpired tran")
  case True
  with tok key have "FeeFree tran \<or> (Tokens (tran_Fee tran) \<noteq> [] \<and> expiredKey tran \<in> dom (fst s))"
    by blast
  then obtain m' where m': "expiredStep (fst s) tran = Inr m'"
    using expiredStep_total by blast
  then have "dom m' = dom (fst s)" by (rule expiredStep_dom)
  with True m' show ?thesis by (simp add: drainStep_def)
next
  case False
  from tok obtain g' where "fillFee (groupStep (snd s) tran) tran = Inr g'"
    using fillFee_total by blast
  with False show ?thesis by (simp add: drainStep_def)
qed

lemma drain_index:
  "\<forall>tran \<in> set trs. \<not> FeeFree tran \<longrightarrow> Tokens (tran_Fee tran) \<noteq> [] \<Longrightarrow>
   drain s trs \<noteq> Inl IndexOutOfRange"
proof (induction trs arbitrary: s)
  case Nil
  then show ?case by simp
next
  case (Cons tran trs)
  then have "drainStep s tran \<noteq> Inl IndexOutOfRange"
    by (intro drainStep_index) auto
  with Cons show ?case by (cases "drainStep s tran") (auto split: panic.splits)
qed

lemma drain_total:
  "\<forall>tran \<in> set trs. \<not> FeeFree tran \<longrightarrow> Tokens (tran_Fee tran) \<noteq> [] \<Longrightarrow>
   \<forall>tran \<in> set trs. IsExpired tran \<and> \<not> FeeFree tran \<longrightarrow> expiredKey tran \<in> dom (fst s) \<Longrightarrow>
   \<exists>s'. drain s trs = Inr s'"
proof (induction trs arbitrary: s)
  case Nil
  then show ?case by simp
next
  case (Cons tran trs)
  have "\<exists>s'. drainStep s tran = Inr s' \<and> dom (fst s') = dom (fst s)"
    using Cons.prems by (intro drainStep_total) auto
  then obtain s' where s': "drainStep s tran = Inr s'" "dom (fst s') = dom (fst s)" by blast
  have "\<exists>s''. drain s' trs = Inr s''"
    using Cons.prems s'(2) by (intro Cons.IH) auto
  with s'(1) show ?case by simp
qed

text \<open>
  Claim C10 says that the drain loop never panics when every Transfer that is not fee-free
  carries a fee token. As stated it fails: such a Transfer that is expired panics on the nil
  pointer when \<^verbatim>\<open>OrderChangesMap\<close> has no entry for its order.
\<close>

theorem drain_nil_entry_counterexample:
  "\<not> FeeFree iocExpire \<and> Tokens (tran_Fee iocExpire) \<noteq> [] \<and>
   drain (Map.empty, Map.empty) [iocExpire] = Inl NilPointerDereference"
  by (simp add: iocExpire_def drainStep_def expiredStep_def setFeeAsset_def)

text \<open>
  Claim C10, amended: when every Transfer that is not fee-free carries a fee token, the
  index \<^verbatim>\<open>Fee.Tokens[0]\<close> is always in bounds; when moreover every expired Transfer that is
  not fee-free has an entry in \<^verbatim>\<open>OrderChangesMap\<close> for its order (Bid for the buyer's side,
  Sid otherwise), the drain loop does not panic.
\<close>

theorem drain_no_panic:
  "((\<forall>tran \<in> set trs. \<not> FeeFree tran \<longrightarrow> Tokens (tran_Fee tran) \<noteq> []) \<longrightarrow>
      drain s trs \<noteq> Inl IndexOutOfRange) \<and>
   ((\<forall>tran \<in> set trs. \<not> FeeFree tran \<longrightarrow> Tokens (tran_Fee tran) \<noteq> []) \<and>
    (\<forall>tran \<in> set trs. IsExpired tran \<and> \<not> FeeFree tran \<longrightarrow> expiredKey tran \<in> dom (fst s)) \<longrightarrow>
      (\<exists>s'. drain s trs = Inr s'))"
  using drain_index [of trs s] drain_total [of trs s] by blast

theorem drain_no_panic_witness:
  "\<not> FeeFree iocExpire \<and> Tokens (tran_Fee iocExpire) \<noteq> [] \<and> IsExpired iocExpire \<and>
   expiredKey iocExpire \<in> dom (fst ([''b9'' \<mapsto> changeOf ''b9'' IOC_NO_FILL], Map.empty)) \<and>
   \<not> FeeFree (fillTransfer ''b1'' ''s1'' True 3) \<and>
   Tokens (tran_Fee (fillTransfer ''b1'' ''s1'' True 3)) \<noteq> [] \<and>
   \<not> IsExpired (fillTransfer ''b1'' ''s1'' True 3) \<and>
   drain ([''b9'' \<mapsto> changeOf ''b9'' IOC_NO_FILL], Map.empty)
     [iocExpire, fillTransfer ''b1'' ''s1'' True 3] \<noteq> Inl IndexOutOfRange \<and>
   (\<exists>s'. drain ([''b9'' \<mapsto> changeOf ''b9'' IOC_NO_FILL], Map.empty)
           [iocExpire, fillTransfer ''b1'' ''s1'' True 3] = Inr s')"
proof -
  have h1: "\<forall>tran \<in> set [iocExpire, fillTransfer ''b1'' ''s1'' True 3].
      \<not> FeeFree tran \<longrightarrow> Tokens (tran_Fee tran) \<noteq> []"
    by (simp add: iocExpire_def fillTransfer_def)
  have h2: "\<forall>tran \<in> set [iocExpire, fillTransfer ''b1'' ''s1'' True 3].
      IsExpired tran \<and> \<not> FeeFree tran \<longrightarrow>
      expiredKey tran \<in> dom (fst ([''b9'' \<mapsto> changeOf ''b9'' IOC_NO_FILL], Map.empty))"
    by (simp add: iocExpire_def fillTransfer_def expiredKey_def)
  note t = drain_no_panic
         [of "[iocExpire, fillTransfer ''b1'' ''s1'' True 3]"
             "([''b9'' \<mapsto> changeOf ''b9'' IOC_NO_FILL], Map.empty)"]
  have a: "drain ([''b9'' \<mapsto> changeOf ''b9'' IOC_NO_FILL], Map.empty)
      [iocExpire, fillTransfer ''b1'' ''s1'' True 3] \<noteq> Inl IndexOutOfRange"
    using conjunct1 [OF t] h1 by (rule mp)
  have b: "\<exists>s'. drain ([''b9'' \<mapsto> changeOf ''b9'' IOC_NO_FILL], Map.empty)
      [iocExpire, fillTransfer ''b1'' ''s1'' True 3] = Inr s'"
    using conjunct2 [OF t] conjI [OF h1 h2] by (rule mp)
  have e: "\<not> FeeFree iocExpire \<and> Tokens (tran_Fee iocExpire) \<noteq> [] \<and> IsExpired iocExpire \<and>
      expiredKey iocExpire \<in> dom (fst ([''b9'' \<mapsto> changeOf ''b9'' IOC_NO_FILL], Map.empty)) \<and>
      \<not> FeeFree (fillTransfer ''b1'' ''s1'' True 3) \<and>
      Tokens (tran_Fee (fillTransfer ''b1'' ''s1'' True 3)) \<noteq> [] \<and>
      \<not> IsExpired (fillTransfer ''b1'' ''s1'' True 3)"
    by (simp add: iocExpire_def fillTransfer_def expiredKey_def)
  from e a b show ?thesis
    by (simp only: simp_thms)
qed

section \<open>Properties of the join with the trades\<close>


lemma jt_has: "hasGroup (grouped (joinTrade h smb s tr)) tr' = hasGroup (grouped s) tr'"
  by (auto simp: joinTrade_def hasGroup_def Let_def split: option.splits)


lemma fold_jt_has:
  "hasGroup (grouped (foldl (joinTrade h smb) s trs)) tr' = hasGroup (grouped s) tr'"
  by (induction trs arbitrary: s) (simp_all add: jt_has)



lemma js_has: "hasGroup (grouped (joinSymbol h s e)) tr' = hasGroup (grouped s) tr'"
  by (simp add: joinSymbol_def fold_jt_has)

lemma fold_js_has:
  "hasGroup (grouped (foldl (joinSymbol h) s es)) tr' = hasGroup (grouped s) tr'"
  by (induction es arbitrary: s) (simp_all add: js_has)






text \<open>
  Claim C5: for a trade of \<^verbatim>\<open>GetLastTrades\<close> without an entry in \<^verbatim>\<open>groupedTrades\<close> under its
  (bid, sid) the join logs the error of line 328 or 331 and goes on with nothing else
  changed; otherwise it appends exactly one publication Trade, the entry of the group with
  its id set to the height, a dash and the index, both in decimal, and with the symbol,
  price = LastPx, qty = LastQty and buyCumQty of the trade, and it adds one to the index.
\<close>

theorem joinTrade_publishes:
  "(grouped s (BId trade) = None \<longrightarrow>
      joinTrade h smb s trade =
        s\<lparr>errors := errors s @
             [''failed to look up bid from trade: '' @ BId trade @ ''-'' @ SId trade @
              '' from groupedTrades'']\<rparr>) \<and>
   (\<forall>gb. grouped s (BId trade) = Some gb \<and> gb (SId trade) = None \<longrightarrow>
      joinTrade h smb s trade =
        s\<lparr>errors := errors s @
             [''failed to look up sid from trade: '' @ BId trade @ ''-'' @ SId trade @
              '' from groupedTrades'']\<rparr>) \<and>
   (\<forall>gb t. grouped s (BId trade) = Some gb \<and> gb (SId trade) = Some t \<longrightarrow>
      toPublish (joinTrade h smb s trade) =
        toPublish s @
          [t\<lparr>Id_t := Sprintf_d h @ ''-'' @ Sprintf_d (tradeIdx s), Symbol := smb,
             Price := LastPx trade, Qty := LastQty trade, BuyCumQty := m_BuyCumQty trade\<rparr>] \<and>
      tradeIdx (joinTrade h smb s trade) = tradeIdx s + 1 \<and>
      errors (joinTrade h smb s trade) = errors s)"
  by (simp add: joinTrade_def tradeId_def bidError_def sidError_def Let_def)

theorem joinTrade_publishes_witness:
  "grouped joined12 (BId tradeXYZ) = None \<and>
   joinTrade 1043 ''XYZ_BNB'' joined12 tradeXYZ =
     joined12\<lparr>errors := [''failed to look up bid from trade: b2-s2 from groupedTrades'']\<rparr> \<and>
   toPublish (joinTrade 1043 ''ABC_BNB'' joined12 tradeABC) =
     [\<lparr>Id_t = ''1043-12'', Symbol = ''ABC_BNB'', Price = 100, Qty = 5, Sid_t = ''s1'',
       Bid_t = ''b1'', Sfee = 0, SfeeAsset = [], Bfee = 3, BfeeAsset = ''BNB'', BuyCumQty = 5\<rparr>] \<and>
   tradeIdx (joinTrade 1043 ''ABC_BNB'' joined12 tradeABC) = 13 \<and>
   errors (joinTrade 1043 ''ABC_BNB'' joined12 tradeABC) = []"
proof -
  have n: "grouped joined12 (BId tradeXYZ) = None"
    by (simp add: joined12_def tradeXYZ_def)
  have e: "errors joined12 = []" "toPublish joined12 = []" "tradeIdx joined12 = 12"
    by (simp_all add: joined12_def)
  have g: "grouped joined12 (BId tradeABC) =
      Some [''s1'' \<mapsto> new_pub_Trade\<lparr>Sid_t := ''s1'', Bid_t := ''b1'', Bfee := 3, BfeeAsset := ''BNB''\<rparr>] \<and>
      [''s1'' \<mapsto> new_pub_Trade\<lparr>Sid_t := ''s1'', Bid_t := ''b1'', Bfee := 3, BfeeAsset := ''BNB''\<rparr>]
        (SId tradeABC) =
      Some (new_pub_Trade\<lparr>Sid_t := ''s1'', Bid_t := ''b1'', Bfee := 3, BfeeAsset := ''BNB''\<rparr>)"
    by (simp add: joined12_def tradeABC_def)
  from joinTrade_publishes [of joined12 tradeXYZ 1043 "''XYZ_BNB''"] n
  have a: "joinTrade 1043 ''XYZ_BNB'' joined12 tradeXYZ =
      joined12\<lparr>errors := errors joined12 @
        [''failed to look up bid from trade: '' @ BId tradeXYZ @ ''-'' @ SId tradeXYZ @
         '' from groupedTrades'']\<rparr>"
    by blast
  from joinTrade_publishes [of joined12 tradeABC 1043 "''ABC_BNB''"] g
  have b: "toPublish (joinTrade 1043 ''ABC_BNB'' joined12 tradeABC) =
        toPublish joined12 @
          [(new_pub_Trade\<lparr>Sid_t := ''s1'', Bid_t := ''b1'', Bfee := 3, BfeeAsset := ''BNB''\<rparr>)
             \<lparr>Id_t := Sprintf_d 1043 @ ''-'' @ Sprintf_d (tradeIdx joined12), Symbol := ''ABC_BNB'',
              Price := LastPx tradeABC, Qty := LastQty tradeABC,
              BuyCumQty := m_BuyCumQty tradeABC\<rparr>] \<and>
      tradeIdx (joinTrade 1043 ''ABC_BNB'' joined12 tradeABC) = tradeIdx joined12 + 1 \<and>
      errors (joinTrade 1043 ''ABC_BNB'' joined12 tradeABC) = errors joined12"
    by blast
  from n a b show ?thesis
    by (simp add: e tradeABC_def tradeXYZ_def new_pub_Trade_def Sprintf_d_def
          Sprintf_nat.simps digit_def)
qed

lemma removeLoop_received:
  "removeLoop ocm sel = Some ocm' \<Longrightarrow>
   \<exists>ids rest. sel = map Recv_ToRemoveOrderIdCh ids @ Recv_RemoveDoneCh # rest \<and>
     ocm' = (\<lambda>k. if k \<in> set ids then None else ocm k)"
proof (induction ocm sel rule: removeLoop.induct)
  case (1 ocm)
  then show ?case by simp
next
  case (2 ocm oid rest)
  from "2.prems" have "removeLoop (ocm(oid := None)) rest = Some ocm'" by simp
  from "2.IH" [OF this]
  obtain ids rest' where r: "rest = map Recv_ToRemoveOrderIdCh ids @ Recv_RemoveDoneCh # rest'"
    "ocm' = (\<lambda>k. if k \<in> set ids then None else (ocm(oid := None)) k)" by blast
  have "Recv_ToRemoveOrderIdCh oid # rest = map Recv_ToRemoveOrderIdCh (oid # ids) @ Recv_RemoveDoneCh # rest'"
    using r(1) by simp
  moreover have "ocm' = (\<lambda>k. if k \<in> set (oid # ids) then None else ocm k)"
    using r(2) by auto
  ultimately show ?case by blast
next
  case (3 ocm rest)
  then have "Recv_RemoveDoneCh # rest = map Recv_ToRemoveOrderIdCh [] @ Recv_RemoveDoneCh # rest \<and>
    ocm' = (\<lambda>k. if k \<in> set [] then None else ocm k)" by simp
  then show ?case by blast
qed

section \<open>Properties of \<^verbatim>\<open>EndBlocker\<close>\<close>

lemmas block_eval = EndBlocker_def blockPhase_def normalBlock_def breatheBlock_def publication_def
  SameDayInUTC_def ShouldPublish_def feeCollectorForTrades_def drainStep_def fillFee_def
  groupStep_def updTrade_def joinAll_def joinSymbol_def joinTrade_def infoToPublish_def
  NewBlockInfoToPublish_def accountsToPublish_def latestPriceLevels_def expiredStep_def
  setFeeAsset_def setFee_def new_pub_Trade_def fillTransfer_def tradeABC_def tradeXYZ_def
  getAllChangedAccountBalances_def getAccountBalances_def accountStep_def accountsOf_def
  block43_def block43_rev_def block43_small_def block43_dead_def block1000_def

lemma EndBlocker_events:
  "fst (EndBlocker x ocm) =
   fst (blockPhase x ocm) @
   (case snd (blockPhase x ocm) of Inl h \<Rightarrow> [] | Inr s \<Rightarrow> fst (publication x s))"
  by (simp add: EndBlocker_def split: prod.splits sum.splits)

lemma EndBlocker_outcome:
  "snd (EndBlocker x ocm) =
   (case snd (blockPhase x ocm) of
      Inl h \<Rightarrow> Inl h
    | Inr s \<Rightarrow> (case snd (publication x s) of
                  Inl h \<Rightarrow> Inl h
                | Inr ocm' \<Rightarrow> Inr (ocm', ResponseEndBlock)))"
  by (simp add: EndBlocker_def split: prod.splits sum.splits)

lemma normalBlock_events:
  "e \<in> set (fst (normalBlock x ocm)) \<Longrightarrow> (\<exists>b. e = MatchAndAllocateAll b) \<or> (\<exists>m. e = Logger_Error m)"
  by (auto simp: normalBlock_def Let_def split: if_splits option.splits sum.splits prod.splits)

lemma normalBlock_matches:
  "MatchAndAllocateAll (PublishMarketData (publicationConfig x) \<and> IsLive x)
     \<in> set (fst (normalBlock x ocm))"
  by (auto simp: normalBlock_def Let_def split: if_splits option.splits sum.splits prod.splits)

lemma publication_events:
  "e \<in> set (fst (publication x s)) \<Longrightarrow>
   (\<exists>m. e = Logger_Error m) \<or> (\<exists>i. e = Send_ToPublishCh i) \<or> e = ClearOrderChanges \<or>
   e = Reset_InvolvedAddresses"
  by (auto simp: publication_def Let_def split: if_splits option.splits)

lemma breatheBlock_events:
  "fst (breatheBlock x ocm) = [EndBlockAsync, EndBreatheBlock, Recv_icoDone]"
  by (simp add: breatheBlock_def)

lemma tail_events:
  "e \<in> set (case r of Inl h \<Rightarrow> [] | Inr s \<Rightarrow> fst (publication x s)) \<Longrightarrow>
   (\<exists>m. e = Logger_Error m) \<or> (\<exists>i. e = Send_ToPublishCh i) \<or> e = ClearOrderChanges \<or>
   e = Reset_InvolvedAddresses"
  by (cases r) (auto dest: publication_events)

lemma collect_fits:
  "length buf + length trs \<le> n \<Longrightarrow> collect n buf trs = Some (buf @ trs)"
  by (induction trs arbitrary: buf) (simp_all add: feeCollectorForTrades_def)

lemma collect_full:
  "n < length buf + length trs \<Longrightarrow> length buf \<le> n \<Longrightarrow> collect n buf trs = None"
  by (induction trs arbitrary: buf) (simp_all add: feeCollectorForTrades_def)

lemma publication_not_transCh: "snd (publication x s) \<noteq> Inl (Blocked At_transCh)"
  by (simp add: publication_def Let_def split: option.splits)

lemma sent_append: "sent (xs @ ys) = sent xs @ sent ys"
  by (induction xs rule: sent.induct) simp_all

lemma sent_errors: "sent (map Logger_Error ms) = []"
  by (induction ms) simp_all

lemma sent_normalBlock: "sent (fst (normalBlock x ocm)) = []"
  by (simp add: normalBlock_def Let_def sent_errors split: option.splits sum.splits prod.splits)

lemma sent_blockPhase: "sent (fst (blockPhase x ocm)) = []"
  by (simp add: blockPhase_def sent_normalBlock breatheBlock_def)

lemma sent_publication:
  "sent (fst (publication x s)) =
   (if ShouldPublish (publicationConfig x) (IsLive x)
    then [infoToPublish x (fst (snd s)) (snd (snd s))] else [])"
  by (simp add: publication_def Let_def sent_append sent_errors split: option.splits)

lemma dead_blockPhase:
  "\<not> IsLive x \<Longrightarrow> \<exists>s. snd (blockPhase x ocm) = Inr s"
  by (simp add: blockPhase_def normalBlock_def breatheBlock_def)

text \<open>
  In a normal block with market data published and a live worker, when the channel takes all
  Transfers and the drain does not panic, the one payload sent carries the trades of the
  join, made with the height of the context that the matching returns.
\<close>

lemma EndBlocker_sent_trades:
  assumes normal: "SameDayInUTC (Time (checkState_Header x)) (Time (ctx_Header x)) \<or>
      Height (ctx_Header x) = 1"
    and live: "PublishMarketData (publicationConfig x)" "IsLive x"
    and ch: "collect (FeeCollectionChannelSize x) [] (matched_Transfers x) = Some ch"
    and dr: "drain (matched_OrderChangesMap x ocm, Map.empty) ch = Inr (ocm', g)"
  shows "map tradesToPublish (sent (fst (EndBlocker x ocm))) =
    [toPublish (joinAll (Height (matched_Header x)) g (LastTrades x))] \<and>
    map height (sent (fst (EndBlocker x ocm))) = [Height (matched_Header x)]"
proof -
  have bp: "snd (blockPhase x ocm) =
      Inr (ocm', matched_Header x, toPublish (joinAll (Height (matched_Header x)) g (LastTrades x)))"
    using normal live ch dr by (simp add: blockPhase_def normalBlock_def Let_def)
  have sp: "ShouldPublish (publicationConfig x) (IsLive x)"
    using live by (simp add: ShouldPublish_def)
  show ?thesis
    using bp sp
    by (simp add: EndBlocker_events sent_append sent_blockPhase sent_publication
          infoToPublish_def NewBlockInfoToPublish_def)
qed




lemma sent_EndBlocker:
  "sent (fst (EndBlocker x ocm)) =
   (case snd (blockPhase x ocm) of
      Inl h \<Rightarrow> []
    | Inr s \<Rightarrow>
        (if ShouldPublish (publicationConfig x) (IsLive x)
         then [infoToPublish x (fst (snd s)) (snd (snd s))] else []))"
  by (simp add: EndBlocker_events sent_append sent_blockPhase sent_publication split: sum.splits)








text \<open>
  The choice of the path for any height: the breathe-block path runs exactly when the two
  times are on different UTC days and the height is not 1.
\<close>

lemma EndBlocker_kind_general:
  "(EndBreatheBlock \<in> set (fst (EndBlocker x ocm)) \<longleftrightarrow>
      \<not> SameDayInUTC (Time (checkState_Header x)) (Time (ctx_Header x)) \<and>
      Height (ctx_Header x) \<noteq> 1) \<and>
   (EndBlockAsync \<in> set (fst (EndBlocker x ocm)) \<longleftrightarrow>
      \<not> SameDayInUTC (Time (checkState_Header x)) (Time (ctx_Header x)) \<and>
      Height (ctx_Header x) \<noteq> 1) \<and>
   ((\<exists>b. MatchAndAllocateAll b \<in> set (fst (EndBlocker x ocm))) \<longleftrightarrow>
      SameDayInUTC (Time (checkState_Header x)) (Time (ctx_Header x)) \<or>
      Height (ctx_Header x) = 1)"
proof (cases "SameDayInUTC (Time (checkState_Header x)) (Time (ctx_Header x)) \<or>
    Height (ctx_Header x) = 1")
  case True
  then have bp: "blockPhase x ocm = normalBlock x ocm" by (simp add: blockPhase_def)
  have m: "\<exists>b. MatchAndAllocateAll b \<in> set (fst (EndBlocker x ocm))"
    using normalBlock_matches [of x ocm] by (auto simp: EndBlocker_events bp)
  have "EndBreatheBlock \<notin> set (fst (EndBlocker x ocm))"
    using normalBlock_events [of EndBreatheBlock x ocm]
      tail_events [where e = EndBreatheBlock and r = "snd (normalBlock x ocm)" and x = x]
    by (auto simp: EndBlocker_events bp)
  moreover have "EndBlockAsync \<notin> set (fst (EndBlocker x ocm))"
    using normalBlock_events [of EndBlockAsync x ocm]
      tail_events [where e = EndBlockAsync and r = "snd (normalBlock x ocm)" and x = x]
    by (auto simp: EndBlocker_events bp)
  ultimately show ?thesis using True m by blast
next
  case False
  then have bp: "blockPhase x ocm = breatheBlock x ocm" by (simp add: blockPhase_def)
  have "MatchAndAllocateAll b \<notin> set (fst (EndBlocker x ocm))" for b
    using tail_events [where e = "MatchAndAllocateAll b" and r = "snd (breatheBlock x ocm)" and x = x]
    by (auto simp: EndBlocker_events bp breatheBlock_events)
  moreover have "EndBreatheBlock \<in> set (fst (EndBlocker x ocm))"
    by (simp add: EndBlocker_events bp breatheBlock_events)
  moreover have "EndBlockAsync \<in> set (fst (EndBlocker x ocm))"
    by (simp add: EndBlocker_events bp breatheBlock_events)
  ultimately show ?thesis using False by blast
qed

text \<open>
  Claim C3: for the heights that \<^verbatim>\<open>EndBlocker\<close> receives, which start at 1 with the first
  block, the breathe-block path (the ICO handler and \<^verbatim>\<open>EndBreatheBlock\<close>, with no matching)
  runs if and only if the UTC date of \<^verbatim>\<open>blockTime\<close> differs from the UTC date of
  \<^verbatim>\<open>lastBlockTime\<close> of the check state and the height is greater than 1; when the height is 1
  or the two times are on the same UTC day the matching runs instead.
\<close>

theorem EndBlocker_breathe_trigger:
  "1 \<le> Height (ctx_Header x) \<Longrightarrow>
   (EndBreatheBlock \<in> set (fst (EndBlocker x ocm)) \<longleftrightarrow>
      \<not> SameDayInUTC (Time (checkState_Header x)) (Time (ctx_Header x)) \<and>
      1 < Height (ctx_Header x)) \<and>
   (EndBlockAsync \<in> set (fst (EndBlocker x ocm)) \<longleftrightarrow>
      \<not> SameDayInUTC (Time (checkState_Header x)) (Time (ctx_Header x)) \<and>
      1 < Height (ctx_Header x)) \<and>
   ((\<exists>b. MatchAndAllocateAll b \<in> set (fst (EndBlocker x ocm))) \<longleftrightarrow>
      SameDayInUTC (Time (checkState_Header x)) (Time (ctx_Header x)) \<or>
      Height (ctx_Header x) = 1)"
proof -
  assume "1 \<le> Height (ctx_Header x)"
  then have "Height (ctx_Header x) \<noteq> 1 \<longleftrightarrow> 1 < Height (ctx_Header x)" by arith
  with EndBlocker_kind_general [of x ocm] show ?thesis by simp
qed

theorem EndBlocker_breathe_trigger_witness:
  "1 \<le> Height (ctx_Header block1000) \<and>
   \<not> SameDayInUTC (Time (checkState_Header block1000)) (Time (ctx_Header block1000)) \<and>
   1 < Height (ctx_Header block1000) \<and>
   EndBreatheBlock \<in> set (fst (EndBlocker block1000 Map.empty)) \<and>
   EndBlockAsync \<in> set (fst (EndBlocker block1000 Map.empty)) \<and>
   1 \<le> Height (ctx_Header block43) \<and>
   SameDayInUTC (Time (checkState_Header block43)) (Time (ctx_Header block43)) \<and>
   EndBreatheBlock \<notin> set (fst (EndBlocker block43 Map.empty))"
proof -
  have p1: "1 \<le> Height (ctx_Header block1000)"
    and h1: "\<not> SameDayInUTC (Time (checkState_Header block1000)) (Time (ctx_Header block1000))"
    and g1: "1 < Height (ctx_Header block1000)"
    by (simp_all add: block1000_def block43_def SameDayInUTC_def)
  have p2: "1 \<le> Height (ctx_Header block43)"
    and h2: "SameDayInUTC (Time (checkState_Header block43)) (Time (ctx_Header block43))"
    by (simp_all add: block43_def SameDayInUTC_def)
  from EndBlocker_breathe_trigger [OF p1, of Map.empty] h1 g1
  have a: "EndBreatheBlock \<in> set (fst (EndBlocker block1000 Map.empty))"
    and b: "EndBlockAsync \<in> set (fst (EndBlocker block1000 Map.empty))"
    by blast+
  from EndBlocker_breathe_trigger [OF p2, of Map.empty] h2
  have c: "EndBreatheBlock \<notin> set (fst (EndBlocker block43 Map.empty))"
    by blast
  from p1 h1 g1 a b p2 h2 c show ?thesis by (simp only: simp_thms)
qed

text \<open>
  Claim C4 says that the sends on \<^verbatim>\<open>transCh\<close> complete for every number of Transfers. As
  stated it fails: in a normal block with market data published and a live worker, three
  Transfers and a channel of capacity two leave the third send waiting for ever, since
  nothing receives from \<^verbatim>\<open>transCh\<close> before the matching returns.
\<close>

theorem EndBlocker_transCh_full_counterexample:
  "SameDayInUTC (Time (checkState_Header block43_small)) (Time (ctx_Header block43_small)) \<and>
   PublishMarketData (publicationConfig block43_small) \<and> IsLive block43_small \<and>
   length (matched_Transfers block43_small) = 3 \<and>
   FeeCollectionChannelSize block43_small = 2 \<and>
   snd (EndBlocker block43_small Map.empty) = Inl (Blocked At_transCh)"
  by (simp add: block_eval)

text \<open>
  Claim C4, amended: when the matching emits no more Transfers than
  \<^verbatim>\<open>FeeCollectionChannelSize\<close>, all sends on \<^verbatim>\<open>transCh\<close> complete before the channel is closed,
  the channel then holds the Transfers in the order emitted, and \<^verbatim>\<open>EndBlocker\<close> does not wait
  at \<^verbatim>\<open>transCh\<close>.
\<close>

theorem EndBlocker_transCh_capacity:
  "length (matched_Transfers x) \<le> FeeCollectionChannelSize x \<longrightarrow>
     collect (FeeCollectionChannelSize x) [] (matched_Transfers x) = Some (matched_Transfers x) \<and>
     snd (EndBlocker x ocm) \<noteq> Inl (Blocked At_transCh)"
proof
  assume le: "length (matched_Transfers x) \<le> FeeCollectionChannelSize x"
  then have c: "collect (FeeCollectionChannelSize x) [] (matched_Transfers x) = Some (matched_Transfers x)"
    using collect_fits [of "[]" "matched_Transfers x" "FeeCollectionChannelSize x"] by simp
  have nb: "snd (normalBlock x ocm) \<noteq> Inl (Blocked At_transCh)"
    by (simp add: normalBlock_def c Let_def split: sum.splits prod.splits)
  have "snd (blockPhase x ocm) \<noteq> Inl (Blocked At_transCh)"
    using nb by (simp add: blockPhase_def breatheBlock_def)
  then have "snd (EndBlocker x ocm) \<noteq> Inl (Blocked At_transCh)"
    using publication_not_transCh
    by (auto simp: EndBlocker_outcome split: sum.splits)
  with c show "collect (FeeCollectionChannelSize x) [] (matched_Transfers x) = Some (matched_Transfers x) \<and>
     snd (EndBlocker x ocm) \<noteq> Inl (Blocked At_transCh)" by simp
qed

theorem EndBlocker_transCh_capacity_witness:
  "length (matched_Transfers block43) \<le> FeeCollectionChannelSize block43 \<and>
   collect (FeeCollectionChannelSize block43) [] (matched_Transfers block43) =
     Some (matched_Transfers block43) \<and>
   snd (EndBlocker block43 Map.empty) \<noteq> Inl (Blocked At_transCh)"
proof -
  have h: "length (matched_Transfers block43) \<le> FeeCollectionChannelSize block43"
    by (simp add: block43_def)
  from EndBlocker_transCh_capacity [of block43 Map.empty] h
  show ?thesis by blast
qed

text \<open>
  Claim C8 says that \<^verbatim>\<open>EndBlocker\<close> hands a payload over exactly when \<^verbatim>\<open>ShouldPublish()\<close>
  holds. As stated it fails: in the block whose third Transfer waits for ever at \<^verbatim>\<open>transCh\<close>
  \<^verbatim>\<open>ShouldPublish()\<close> holds and nothing is sent, since the run never reaches line 353.
\<close>

theorem EndBlocker_no_handoff_counterexample:
  "ShouldPublish (publicationConfig block43_small) (IsLive block43_small) \<and>
   sent (fst (EndBlocker block43_small Map.empty)) = [] \<and>
   snd (EndBlocker block43_small Map.empty) = Inl (Blocked At_transCh)"
  by (simp add: block_eval)

text \<open>
  Claim C8, amended: \<^verbatim>\<open>EndBlocker\<close> sends a payload on \<^verbatim>\<open>ToPublishCh\<close> if and only if
  \<^verbatim>\<open>ShouldPublish()\<close> holds and the block phase before it returns; \<^verbatim>\<open>ShouldPublish()\<close> combines
  the flags of the feeds with the liveness bit of the worker; when the sink failed to
  initialise at start-up the worker is not live, nothing is sent, and \<^verbatim>\<open>EndBlocker\<close> completes
  the block and returns the empty response. Its result type has no error.
\<close>

theorem EndBlocker_handoff_gate:
  "(sent (fst (EndBlocker x ocm)) \<noteq> [] \<longleftrightarrow>
      ShouldPublish (publicationConfig x) (IsLive x) \<and> (\<exists>s. snd (blockPhase x ocm) = Inr s)) \<and>
   (ShouldPublish (publicationConfig x) (IsLive x) \<longleftrightarrow>
      IsLive x \<and>
      (PublishMarketData (publicationConfig x) \<or> PublishAccountBalance (publicationConfig x) \<or>
       PublishOrderBook (publicationConfig x))) \<and>
   (IsLive x = NewBinanceChain_IsLive (publicationConfig x) False \<longrightarrow>
      \<not> IsLive x \<and>
      sent (fst (EndBlocker x ocm)) = [] \<and>
      (\<exists>ocm'. snd (EndBlocker x ocm) = Inr (ocm', ResponseEndBlock)))"
proof (intro conjI impI)
  show "sent (fst (EndBlocker x ocm)) \<noteq> [] \<longleftrightarrow>
      ShouldPublish (publicationConfig x) (IsLive x) \<and> (\<exists>s. snd (blockPhase x ocm) = Inr s)"
    by (cases "snd (blockPhase x ocm)") (auto simp: sent_EndBlocker)
  show "ShouldPublish (publicationConfig x) (IsLive x) \<longleftrightarrow>
      IsLive x \<and>
      (PublishMarketData (publicationConfig x) \<or> PublishAccountBalance (publicationConfig x) \<or>
       PublishOrderBook (publicationConfig x))"
    by (simp add: ShouldPublish_def)
next
  assume "IsLive x = NewBinanceChain_IsLive (publicationConfig x) False"
  then show dead: "\<not> IsLive x" by (simp add: NewBinanceChain_IsLive_def)
  then have np: "\<not> ShouldPublish (publicationConfig x) (IsLive x)"
    by (simp add: ShouldPublish_def)
  from dead obtain s where s: "snd (blockPhase x ocm) = Inr s"
    using dead_blockPhase by blast
  show "sent (fst (EndBlocker x ocm)) = []"
    using s np by (simp add: sent_EndBlocker)
  show "\<exists>ocm'. snd (EndBlocker x ocm) = Inr (ocm', ResponseEndBlock)"
    using s np by (simp add: EndBlocker_outcome publication_def)
qed

theorem EndBlocker_handoff_gate_witness:
  "IsLive block43_dead = NewBinanceChain_IsLive (publicationConfig block43_dead) False \<and>
   sent (fst (EndBlocker block43_dead Map.empty)) = [] \<and>
   (\<exists>ocm'. snd (EndBlocker block43_dead Map.empty) = Inr (ocm', ResponseEndBlock)) \<and>
   ShouldPublish (publicationConfig block43) (IsLive block43) \<and>
   (\<exists>s. snd (blockPhase block43 Map.empty) = Inr s) \<and>
   sent (fst (EndBlocker block43 Map.empty)) \<noteq> []"
proof -
  have h: "IsLive block43_dead = NewBinanceChain_IsLive (publicationConfig block43_dead) False"
    by (simp add: block43_dead_def block43_def NewBinanceChain_IsLive_def)
  have sp: "ShouldPublish (publicationConfig block43) (IsLive block43)"
    by (simp add: block43_def ShouldPublish_def)
  have bp: "\<exists>s. snd (blockPhase block43 Map.empty) = Inr s"
    by (simp add: block_eval Let_def)
  from EndBlocker_handoff_gate [of block43_dead Map.empty] h
  have a: "sent (fst (EndBlocker block43_dead Map.empty)) = []"
    and b: "\<exists>ocm'. snd (EndBlocker block43_dead Map.empty) = Inr (ocm', ResponseEndBlock)"
    by blast+
  from EndBlocker_handoff_gate [of block43 Map.empty] sp bp
  have c: "sent (fst (EndBlocker block43 Map.empty)) \<noteq> []"
    by blast
  from h a b sp bp c show ?thesis by (simp only: simp_thms)
qed

text \<open>
  Claim C6 says that after the handoff every id that the worker has reported is absent from
  \<^verbatim>\<open>OrderChangesMap\<close>. The loop deletes the ids it receives and leaves on the signal of
  \<^verbatim>\<open>RemoveDoneCh\<close>, but it can receive that signal while an id that the worker has sent is
  still in the buffer of \<^verbatim>\<open>ToRemoveOrderIdCh\<close>: with a buffer of one, the worker reports the
  fully filled order o1 and signals, the \<^verbatim>\<open>select\<close> takes the signal, and \<^verbatim>\<open>EndBlocker\<close>
  returns with o1 still in the map.
\<close>

theorem removal_loop_race:
  "receptions 1 [''o1''] [] (selects block43) \<and>
   Tpe (changeOf ''o1'' FILLED_FULL) = FILLED_FULL \<and>
   snd (EndBlocker block43 [''o1'' \<mapsto> changeOf ''o1'' FILLED_FULL]) =
     Inr ([''o1'' \<mapsto> changeOf ''o1'' FILLED_FULL], ResponseEndBlock)"
proof -
  have "receptions 1 [''o1''] [] [Recv_RemoveDoneCh]"
    by (rule receptions.buffer) (simp_all add: receptions.signal)
  then show ?thesis by (simp add: block_eval changeOf_def Let_def)
qed

end
